theory Spec2Isabelle
  imports Complex_Main
begin

section \<open>Values of the object graph\<close>

text \<open>
  The equivalence checker \<^verbatim>\<open>compare_class_instances\<close> of
  \<^verbatim>\<open>gloria/tests/test_serialize.py\<close> walks two Python object graphs. The values it
  can meet are modelled by the datatype \<open>pyval\<close> below. A Python \<^verbatim>\<open>int\<close> is an
  integer, a finite \<^verbatim>\<open>float\<close> an exact rational; the two are different types and compare
  numerically (\<^verbatim>\<open>1 == 1.0\<close>). Rounding of floating-point arithmetic, NaN and the
  infinities are outside the model.
\<close>

datatype error =
  AssertionError | AttributeError | IndexError | KeyError | TypeError | ValueError

text \<open>\<^verbatim>\<open>None\<close>, a \<^verbatim>\<open>bool\<close>, an \<^verbatim>\<open>int\<close>, a \<^verbatim>\<open>float\<close> or a \<^verbatim>\<open>str\<close>.\<close>

datatype scalar = SNone | SBool bool | SInt int | SNum rat | SStr string

text \<open>A numpy dtype, reduced to what the checker reads: its kind character and its width.\<close>

record dtype =
  kind :: char
  itemsize :: nat

text \<open>A numeric \<^verbatim>\<open>numpy.ndarray\<close>: shape, dtype and the elements in row-major order.\<close>

record ndarray =
  shape :: "nat list"
  adtype :: dtype
  data :: "rat list"

text \<open>A \<^verbatim>\<open>pandas.Index\<close>: dtype, name and labels.\<close>

record pindex =
  idtype :: dtype
  iname :: scalar
  ilabels :: "scalar list"

text \<open>A \<^verbatim>\<open>pandas.Series\<close>: name, index, dtype and cell values.\<close>

record series =
  sname :: scalar
  sindex :: pindex
  sdtype :: dtype
  svalues :: "scalar list"

record column =
  cdtype :: dtype
  cvalues :: "scalar list"

text \<open>A \<^verbatim>\<open>pandas.DataFrame\<close>: row index and the columns in order, each under its label.\<close>

record dataframe =
  findex :: pindex
  fcolumns :: "(string \<times> column) list"

text \<open>
  A class is known by its name, the names of its proper ancestors (its method resolution
  order without itself and without \<^verbatim>\<open>object\<close>) and, for a pydantic model, the names
  of its declared fields (the keys of the class attribute \<^verbatim>\<open>model_fields\<close>).
\<close>

record pyclass =
  cname :: string
  bases :: "string list"
  model_fields :: "string list"

text \<open>
  \<open>VObj c d x\<close> is an instance of class \<open>c\<close> with instance dictionary \<open>d\<close>
  (\<^verbatim>\<open>__dict__\<close>) and, for a pydantic model, the extra fields \<open>x\<close>
  (\<^verbatim>\<open>model_extra\<close>, which is \<^verbatim>\<open>None\<close> unless the model allows extras).
\<close>

datatype pyval =
    VScalar scalar
  | VList "pyval list"
  | VDict "(string \<times> pyval) list"
  | VArray ndarray
  | VSeries series
  | VFrame dataframe
  | VObj pyclass "(string \<times> pyval) list" "(string \<times> pyval) list option"

section \<open>Types, attributes and subscripts\<close>

fun type_name :: "pyval \<Rightarrow> string" where
  "type_name (VScalar SNone) = ''NoneType''"
| "type_name (VScalar (SBool b)) = ''bool''"
| "type_name (VScalar (SInt i)) = ''int''"
| "type_name (VScalar (SNum x)) = ''float''"
| "type_name (VScalar (SStr s)) = ''str''"
| "type_name (VList xs) = ''list''"
| "type_name (VDict kvs) = ''dict''"
| "type_name (VArray a) = ''ndarray''"
| "type_name (VSeries s) = ''Series''"
| "type_name (VFrame f) = ''DataFrame''"
| "type_name (VObj c d x) = cname c"

text \<open>
  The names of the classes a value is an instance of (\<^verbatim>\<open>bool\<close> is a subclass of
  \<^verbatim>\<open>int\<close>).
\<close>

fun mro :: "pyval \<Rightarrow> string list" where
  "mro (VObj c d x) = cname c # bases c"
| "mro (VScalar (SBool b)) = [''bool'', ''int'']"
| "mro v = [type_name v]"

text \<open>\<^verbatim>\<open>isinstance(v, C)\<close> for the class named \<open>C\<close>: true for \<open>C\<close> and for its subclasses.\<close>

definition isinstance :: "pyval \<Rightarrow> string \<Rightarrow> bool" where
  "isinstance v C = (C \<in> set (mro v))"

fun lookup :: "(string \<times> 'a) list \<Rightarrow> string \<Rightarrow> 'a option" where
  "lookup [] k = None"
| "lookup ((k', v) # kvs) k = (if k' = k then Some v else lookup kvs k)"

text \<open>
  \<^verbatim>\<open>getattr(obj, name)\<close>: the instance dictionary first, then (pydantic's
  \<^verbatim>\<open>__getattr__\<close>) the extra fields; \<^verbatim>\<open>AttributeError\<close> otherwise. Attributes of
  values that are not objects are not modelled.
\<close>

fun getattr :: "pyval \<Rightarrow> string \<Rightarrow> error + pyval" where
  "getattr (VObj c d x) n =
     (case lookup d n of
        Some v \<Rightarrow> Inr v
      | None \<Rightarrow>
          (if ''BaseModel'' \<in> set (cname c # bases c)
           then (case x of
                   None \<Rightarrow> Inl AttributeError
                 | Some e \<Rightarrow> (case lookup e n of Some v \<Rightarrow> Inr v | None \<Rightarrow> Inl AttributeError))
           else Inl AttributeError))"
| "getattr v n = Inl AttributeError"

text \<open>
  \<^verbatim>\<open>v[k]\<close> for a string key. A dictionary raises \<^verbatim>\<open>KeyError\<close> for a missing key. A
  frame selects by column label: the column as a Series when the label occurs once, a frame
  of the columns when it occurs several times, \<^verbatim>\<open>KeyError\<close> when it does not occur. A
  Series selects by index label in the same way. An array raises \<^verbatim>\<open>IndexError\<close>; any
  other value (a number, a list, a string, \<^verbatim>\<open>None\<close>, an object without
  \<^verbatim>\<open>__getitem__\<close>) raises \<^verbatim>\<open>TypeError\<close>.
\<close>

fun getitem :: "pyval \<Rightarrow> string \<Rightarrow> error + pyval" where
  "getitem (VDict kvs) k = (case lookup kvs k of Some v \<Rightarrow> Inr v | None \<Rightarrow> Inl KeyError)"
| "getitem (VFrame f) k =
     (case filter (\<lambda>nc. fst nc = k) (fcolumns f) of
        [] \<Rightarrow> Inl KeyError
      | [nc] \<Rightarrow> Inr (VSeries \<lparr>sname = SStr k, sindex = findex f, sdtype = cdtype (snd nc),
                               svalues = cvalues (snd nc)\<rparr>)
      | ncs \<Rightarrow> Inr (VFrame \<lparr>findex = findex f, fcolumns = ncs\<rparr>))"
| "getitem (VSeries s) k =
     (case filter (\<lambda>lc. fst lc = SStr k) (zip (ilabels (sindex s)) (svalues s)) of
        [] \<Rightarrow> Inl KeyError
      | [lc] \<Rightarrow> Inr (VScalar (snd lc))
      | lcs \<Rightarrow> Inr (VSeries \<lparr>sname = sname s,
                               sindex = \<lparr>idtype = idtype (sindex s), iname = iname (sindex s),
                                         ilabels = map fst lcs\<rparr>,
                               sdtype = sdtype s, svalues = map snd lcs\<rparr>))"
| "getitem (VArray a) k = Inl IndexError"
| "getitem v k = Inl TypeError"

text \<open>
  \<^verbatim>\<open>v.dtype\<close>: arrays and Series have one; a frame has \<^verbatim>\<open>dtypes\<close> only, and the
  other values have no such attribute.
\<close>

fun dtype_of :: "pyval \<Rightarrow> error + dtype" where
  "dtype_of (VArray a) = Inr (adtype a)"
| "dtype_of (VSeries s) = Inr (sdtype s)"
| "dtype_of v = Inl AttributeError"

section \<open>numpy: broadcasting and \<^verbatim>\<open>allclose\<close>\<close>

text \<open>Right-aligned broadcasting of two shapes, as numpy defines it.\<close>

fun bdim :: "nat \<Rightarrow> nat \<Rightarrow> nat option" where
  "bdim d e = (if d = e then Some d else if d = 1 then Some e else if e = 1 then Some d else None)"

fun bshape :: "nat list \<Rightarrow> nat list \<Rightarrow> nat list option" where
  "bshape [] [] = Some []"
| "bshape (d # ds) (e # es) =
     (case bdim d e of
        None \<Rightarrow> None
      | Some m \<Rightarrow> (case bshape ds es of None \<Rightarrow> None | Some ms \<Rightarrow> Some (m # ms)))"
| "bshape ds es = None"

definition pad_shape :: "nat \<Rightarrow> nat list \<Rightarrow> nat list" where
  "pad_shape n s = replicate (n - length s) 1 @ s"

definition broadcast_shapes :: "nat list \<Rightarrow> nat list \<Rightarrow> nat list option" where
  "broadcast_shapes s t =
     (let n = max (length s) (length t) in bshape (pad_shape n s) (pad_shape n t))"

fun chunks :: "nat \<Rightarrow> nat \<Rightarrow> 'a list \<Rightarrow> 'a list list" where
  "chunks 0 m xs = []"
| "chunks (Suc n) m xs = take m xs # chunks n m (drop m xs)"

text \<open>
  \<open>broadcast_data s t xs\<close>: the row-major elements of an array of shape \<open>s\<close> stretched to
  shape \<open>t\<close> (both of the same rank, \<open>t\<close> a broadcast of \<open>s\<close>).
\<close>

fun broadcast_data :: "nat list \<Rightarrow> nat list \<Rightarrow> 'a list \<Rightarrow> 'a list" where
  "broadcast_data (d # ds) (e # es) xs =
     (if d = e then concat (map (broadcast_data ds es) (chunks d (prod_list ds) xs))
      else concat (replicate e (broadcast_data ds es xs)))"
| "broadcast_data ds es xs = xs"

definition broadcast_to :: "nat list \<Rightarrow> nat list \<Rightarrow> 'a list \<Rightarrow> 'a list" where
  "broadcast_to t s xs = broadcast_data (pad_shape (length t) s) t xs"

text \<open>
  \<^verbatim>\<open>numpy.isclose\<close> on one pair of finite elements, with the default tolerances
  \<^verbatim>\<open>rtol=1e-05\<close> and \<^verbatim>\<open>atol=1e-08\<close>: \<^verbatim>\<open>abs(a - b) <= atol + rtol * abs(b)\<close>.
\<close>

definition rtol :: rat where "rtol = 1 / 100000"
definition atol :: rat where "atol = 1 / 100000000"

definition isclose :: "rat \<Rightarrow> rat \<Rightarrow> bool" where
  "isclose a b = (\<bar>a - b\<bar> \<le> atol + rtol * \<bar>b\<bar>)"

text \<open>The number a scalar stands for in arithmetic: booleans count as 0 and 1.\<close>

fun num_of :: "scalar \<Rightarrow> rat option" where
  "num_of (SBool b) = Some (if b then 1 else 0)"
| "num_of (SInt i) = Some (of_int i)"
| "num_of (SNum x) = Some x"
| "num_of s = None"

definition float64 :: dtype where
  "float64 = \<lparr>kind = CHR ''f'', itemsize = 8\<rparr>"

text \<open>
  \<^verbatim>\<open>numpy.asanyarray\<close> on a value, as a shape and the elements in row-major order. An
  element that is not a number is \<open>None\<close>: numpy builds an object or string array of such
  values, on which its numeric functions raise \<^verbatim>\<open>TypeError\<close>. The dtype of the converted
  array is not read by \<^verbatim>\<open>allclose\<close> or \<^verbatim>\<open>==\<close>. A scalar, a dictionary and an object
  are arrays of no dimension; the elements of a list are stacked, and a list whose elements
  differ in shape has no array (\<open>None\<close>: numpy raises \<^verbatim>\<open>ValueError\<close>, the shape is
  inhomogeneous).
\<close>

type_synonym cells = "nat list \<times> rat option list"

definition stack :: "cells list \<Rightarrow> cells option" where
  "stack as =
     (case as of
        [] \<Rightarrow> Some ([0], [])
      | a # _ \<Rightarrow>
          (if list_all (\<lambda>b. fst b = fst a) as
           then Some (length as # fst a, concat (map snd as))
           else None))"

definition frame_cells :: "dataframe \<Rightarrow> cells" where
  "frame_cells f =
     ([length (ilabels (findex f)), length (fcolumns f)],
      concat (transpose (map (\<lambda>nc. map num_of (cvalues (snd nc))) (fcolumns f))))"

fun array_cells :: "pyval \<Rightarrow> cells option" where
  "array_cells (VArray a) = Some (shape a, map Some (data a))"
| "array_cells (VScalar s) = Some ([], [num_of s])"
| "array_cells (VList vs) =
     (case those (map array_cells vs) of None \<Rightarrow> None | Some as \<Rightarrow> stack as)"
| "array_cells (VSeries s) = Some ([length (svalues s)], map num_of (svalues s))"
| "array_cells (VFrame f) = Some (frame_cells f)"
| "array_cells (VDict kvs) = Some ([], [None])"
| "array_cells (VObj c d x) = Some ([], [None])"

text \<open>
  \<^verbatim>\<open>numpy.allclose(a, b)\<close> with its default arguments: \<^verbatim>\<open>ValueError\<close> when \<open>b\<close> is
  a list of inhomogeneous shape, \<^verbatim>\<open>TypeError\<close> when \<open>b\<close> is not numeric,
  \<^verbatim>\<open>ValueError\<close> when the shapes do not broadcast, otherwise whether every pair of
  elements is close.
\<close>

definition allclose :: "ndarray \<Rightarrow> pyval \<Rightarrow> error + bool" where
  "allclose a v =
     (case array_cells v of
        None \<Rightarrow> Inl ValueError
      | Some (t, ys) \<Rightarrow>
          (case those ys of
             None \<Rightarrow> Inl TypeError
           | Some zs \<Rightarrow>
               (case broadcast_shapes (shape a) t of
                  None \<Rightarrow> Inl ValueError
                | Some u \<Rightarrow>
                    Inr (list_all2 isclose (broadcast_to u (shape a) (data a))
                           (broadcast_to u t zs)))))"

section \<open>pandas: \<^verbatim>\<open>assert_series_equal\<close> and \<^verbatim>\<open>assert_frame_equal\<close>\<close>

text \<open>
  The two assertions of \<^verbatim>\<open>pandas.testing\<close>, with every argument but \<^verbatim>\<open>check_dtype\<close>
  at its default (pandas 2.2). Cells are compared exactly (\<^verbatim>\<open>==\<close>) when either dtype is
  numeric and not floating; otherwise two cells match when they are equal or when both are
  real numbers (\<^verbatim>\<open>int\<close> or \<^verbatim>\<open>float\<close>, not \<^verbatim>\<open>bool\<close>) that \<^verbatim>\<open>math.isclose\<close> accepts with
  \<^verbatim>\<open>rel_tol=1e-5\<close> and \<^verbatim>\<open>abs_tol=1e-8\<close>. Every failure is an \<^verbatim>\<open>AssertionError\<close>.
\<close>

text \<open>\<^verbatim>\<open>a == b\<close> on two scalars: numbers by value, anything else by identity of the value.\<close>

fun scalar_eq :: "scalar \<Rightarrow> scalar \<Rightarrow> bool" where
  "scalar_eq a b =
     (case (num_of a, num_of b) of
        (Some x, Some y) \<Rightarrow> x = y
      | (None, None) \<Rightarrow> a = b
      | _ \<Rightarrow> False)"

fun real_of :: "scalar \<Rightarrow> rat option" where
  "real_of (SInt i) = Some (of_int i)"
| "real_of (SNum x) = Some x"
| "real_of s = None"

definition numeric_kind :: "char \<Rightarrow> bool" where
  "numeric_kind k = (k \<in> set ''iufcb'')"

definition check_exact :: "dtype \<Rightarrow> dtype \<Rightarrow> bool" where
  "check_exact l r =
     ((numeric_kind (kind l) \<and> kind l \<noteq> CHR ''f'') \<or> (numeric_kind (kind r) \<and> kind r \<noteq> CHR ''f''))"

definition math_isclose :: "rat \<Rightarrow> rat \<Rightarrow> bool" where
  "math_isclose a b = (\<bar>a - b\<bar> \<le> max (rtol * max \<bar>a\<bar> \<bar>b\<bar>) atol)"

definition cell_equal :: "bool \<Rightarrow> scalar \<Rightarrow> scalar \<Rightarrow> bool" where
  "cell_equal exact a b =
     (scalar_eq a b \<or>
      (\<not> exact \<and> (case (real_of a, real_of b) of
                     (Some x, Some y) \<Rightarrow> math_isclose x y
                   | _ \<Rightarrow> False)))"

definition values_equal :: "bool \<Rightarrow> dtype \<Rightarrow> scalar list \<Rightarrow> dtype \<Rightarrow> scalar list \<Rightarrow> bool" where
  "values_equal check_dtype ld lv rd rv =
     (length lv = length rv \<and> (if check_dtype then ld = rd else True) \<and>
      list_all2 (cell_equal (check_exact ld rd)) lv rv)"

text \<open>
  \<^verbatim>\<open>assert_index_equal\<close> as the two assertions call it (\<^verbatim>\<open>exact='equiv'\<close>,
  \<^verbatim>\<open>check_exact=False\<close>, \<^verbatim>\<open>check_names=True\<close>): the dtypes of the two indexes must be
  the same, width included, whatever \<^verbatim>\<open>check_dtype\<close> is; the labels are compared within
  the tolerance; the names must be equal.
\<close>

definition index_equal :: "pindex \<Rightarrow> pindex \<Rightarrow> bool" where
  "index_equal l r =
     (idtype l = idtype r \<and> length (ilabels l) = length (ilabels r) \<and>
      list_all2 (cell_equal False) (ilabels l) (ilabels r) \<and> iname l = iname r)"

definition assert_series_equal :: "bool \<Rightarrow> series \<Rightarrow> pyval \<Rightarrow> error + unit" where
  "assert_series_equal check_dtype left right =
     (case right of
        VSeries r \<Rightarrow>
          (if length (svalues left) \<noteq> length (svalues r) then Inl AssertionError
           else if \<not> index_equal (sindex left) (sindex r) then Inl AssertionError
           else if \<not> values_equal check_dtype (sdtype left) (svalues left) (sdtype r) (svalues r)
             then Inl AssertionError
           else if sname left \<noteq> sname r then Inl AssertionError
           else Inr ())
      | _ \<Rightarrow> Inl AssertionError)"

text \<open>
  The columns of a frame are compared by position, after the two lists of column labels
  (strings here, compared as they are).
\<close>

definition column_equal :: "bool \<Rightarrow> string \<times> column \<Rightarrow> string \<times> column \<Rightarrow> bool" where
  "column_equal check_dtype l r =
     values_equal check_dtype (cdtype (snd l)) (cvalues (snd l)) (cdtype (snd r)) (cvalues (snd r))"

definition assert_frame_equal :: "bool \<Rightarrow> dataframe \<Rightarrow> pyval \<Rightarrow> error + unit" where
  "assert_frame_equal check_dtype left right =
     (case right of
        VFrame r \<Rightarrow>
          (if length (ilabels (findex left)) \<noteq> length (ilabels (findex r))
              \<or> length (fcolumns left) \<noteq> length (fcolumns r) then Inl AssertionError
           else if \<not> index_equal (findex left) (findex r) then Inl AssertionError
           else if map fst (fcolumns left) \<noteq> map fst (fcolumns r) then Inl AssertionError
           else if \<not> list_all2 (column_equal check_dtype) (fcolumns left) (fcolumns r)
             then Inl AssertionError
           else Inr ())
      | _ \<Rightarrow> Inl AssertionError)"

text \<open>
  \<^verbatim>\<open>v[col].dtype\<close>: in a frame a label that occurs once selects a column; a label that
  occurs several times selects a DataFrame, which has no \<^verbatim>\<open>dtype\<close>.
\<close>

definition column_dtype :: "pyval \<Rightarrow> string \<Rightarrow> error + dtype" where
  "column_dtype v col = (case getitem v col of Inl e \<Rightarrow> Inl e | Inr c \<Rightarrow> dtype_of c)"

text \<open>
  Lines 76 to 79: \<^verbatim>\<open>for col in actual_val.columns: assert actual_val[col].dtype.kind ==
  desired_val[col].dtype.kind\<close>.
\<close>

fun check_kinds :: "pyval \<Rightarrow> pyval \<Rightarrow> string list \<Rightarrow> error + unit" where
  "check_kinds actual_val desired_val [] = Inr ()"
| "check_kinds actual_val desired_val (col # cols) =
     (case column_dtype actual_val col of
        Inl e \<Rightarrow> Inl e
      | Inr da \<Rightarrow>
          (case column_dtype desired_val col of
             Inl e \<Rightarrow> Inl e
           | Inr dd \<Rightarrow>
               (if kind da = kind dd then check_kinds actual_val desired_val cols
                else Inl AssertionError)))"

section \<open>Python's \<^verbatim>\<open>==\<close>\<close>

text \<open>
  \<open>py_eq v w\<close> is the truth value of \<^verbatim>\<open>v == w\<close>, as \<^verbatim>\<open>assert v == w\<close> takes it.
  \<^item> A comparison with a pandas object yields a pandas object, whose truth value is
    ambiguous: \<^verbatim>\<open>ValueError\<close>.
  \<^item> A comparison with an array is elementwise, after broadcasting; the result has a truth
    value only when it has exactly one element. An element that is not a number compares
    unequal to every number.
  \<^item> Lists and dictionaries compare their lengths, then their elements (a dictionary by
    key) until the first unequal pair.
  \<^item> Two pydantic models are equal when their classes, their extra fields and their
    instance dictionaries are. Instances of other classes have Python's default equality,
    identity; the model has no identities, and the two graphs the checker is given are
    disjoint, so such a comparison is false.
\<close>

definition array_truth :: "bool list \<Rightarrow> error + bool" where
  "array_truth bs = (case bs of [b] \<Rightarrow> Inr b | _ \<Rightarrow> Inl ValueError)"

definition array_eq :: "pyval \<Rightarrow> pyval \<Rightarrow> error + bool" where
  "array_eq v w =
     (case array_cells v of
        None \<Rightarrow> Inl ValueError
      | Some (s, xs) \<Rightarrow>
          (case array_cells w of
             None \<Rightarrow> Inl ValueError
           | Some (t, ys) \<Rightarrow>
               (case broadcast_shapes s t of
                  None \<Rightarrow> Inl ValueError
                | Some u \<Rightarrow>
                    array_truth (map2 (\<lambda>x y. x \<noteq> None \<and> x = y)
                                   (broadcast_to u s xs) (broadcast_to u t ys)))))"

fun is_pandas :: "pyval \<Rightarrow> bool" where
  "is_pandas (VSeries s) = True"
| "is_pandas (VFrame f) = True"
| "is_pandas v = False"

fun is_ndarray :: "pyval \<Rightarrow> bool" where
  "is_ndarray (VArray a) = True"
| "is_ndarray v = False"

definition is_BaseModel :: "pyval \<Rightarrow> bool" where
  "is_BaseModel v = isinstance v ''BaseModel''"

function py_eq :: "pyval \<Rightarrow> pyval \<Rightarrow> error + bool"
  and py_eq_list :: "pyval list \<Rightarrow> pyval list \<Rightarrow> error + bool"
  and py_eq_items :: "(string \<times> pyval) list \<Rightarrow> (string \<times> pyval) list \<Rightarrow> error + bool"
where
  "py_eq v w =
     (if is_pandas v \<or> is_pandas w then Inl ValueError
      else if is_ndarray v \<or> is_ndarray w then array_eq v w
      else (case v of
              VScalar a \<Rightarrow> (case w of VScalar b \<Rightarrow> Inr (scalar_eq a b) | _ \<Rightarrow> Inr False)
            | VList xs \<Rightarrow>
                (case w of
                   VList ys \<Rightarrow> (if length xs \<noteq> length ys then Inr False else py_eq_list xs ys)
                 | _ \<Rightarrow> Inr False)
            | VDict kvs \<Rightarrow>
                (case w of
                   VDict lws \<Rightarrow>
                     (if length kvs \<noteq> length lws then Inr False else py_eq_items kvs lws)
                 | _ \<Rightarrow> Inr False)
            | VObj c d x \<Rightarrow>
                (case w of
                   VObj c' d' x' \<Rightarrow>
                     (if \<not> (is_BaseModel v \<and> is_BaseModel w) then Inr False
                      else if cname c \<noteq> cname c' then Inr False
                      else (case (case x of
                                    None \<Rightarrow> Inr (x' = None)
                                  | Some e \<Rightarrow>
                                      (case x' of
                                         None \<Rightarrow> Inr False
                                       | Some e' \<Rightarrow>
                                           (if length e \<noteq> length e' then Inr False
                                            else py_eq_items e e'))) of
                              Inl err \<Rightarrow> Inl err
                            | Inr False \<Rightarrow> Inr False
                            | Inr True \<Rightarrow>
                                (if length d \<noteq> length d' then Inr False
                                 else py_eq_items d d')))
                 | _ \<Rightarrow> Inr False)
            | _ \<Rightarrow> Inr False))"
| "py_eq_list [] ys = Inr True"
| "py_eq_list (x # xs) [] = Inr False"
| "py_eq_list (x # xs) (y # ys) =
     (case py_eq x y of
        Inl err \<Rightarrow> Inl err
      | Inr False \<Rightarrow> Inr False
      | Inr True \<Rightarrow> py_eq_list xs ys)"
| "py_eq_items [] lws = Inr True"
| "py_eq_items ((k, v) # kvs) lws =
     (case lookup lws k of
        None \<Rightarrow> Inr False
      | Some w \<Rightarrow>
          (case py_eq v w of
             Inl err \<Rightarrow> Inl err
           | Inr False \<Rightarrow> Inr False
           | Inr True \<Rightarrow> py_eq_items kvs lws))"
  by pat_completeness auto
termination
  by (relation "measure (\<lambda>a. case a of
          Inl (v, w) \<Rightarrow> size v
        | Inr (Inl (xs, ys)) \<Rightarrow> size_list size xs
        | Inr (Inr (kvs, lws)) \<Rightarrow> size_list (size_prod (\<lambda>k. 0) size) kvs)")
     auto

text \<open>\<^verbatim>\<open>assert v == w\<close>.\<close>

definition assert_eq :: "pyval \<Rightarrow> pyval \<Rightarrow> error + unit" where
  "assert_eq v w =
     (case py_eq v w of
        Inl e \<Rightarrow> Inl e
      | Inr b \<Rightarrow> (if b then Inr () else Inl AssertionError))"

section \<open>The equivalence checker\<close>

text \<open>
  \<^verbatim>\<open>compare_class_instances(actual, desired, ignore_attributes=set())\<close>, lines 22 to 98
  of \<^verbatim>\<open>gloria/tests/test_serialize.py\<close>. It returns nothing and raises on a mismatch:
  the model returns \<open>Inr ()\<close> or the exception.
\<close>

text \<open>
  Lines 50 to 56: \<^verbatim>\<open>set(v.model_fields.keys()) | set(v.model_extra.keys())\<close>. A value that
  is not a pydantic model has no \<^verbatim>\<open>model_fields\<close>, and \<^verbatim>\<open>model_extra\<close> is \<^verbatim>\<open>None\<close>
  when the model does not allow extras.
\<close>

fun model_attrs :: "pyval \<Rightarrow> error + string list" where
  "model_attrs (VObj c d x) =
     (if ''BaseModel'' \<in> set (cname c # bases c)
      then (case x of None \<Rightarrow> Inl AttributeError | Some e \<Rightarrow> Inr (model_fields c @ map fst e))
      else Inl AttributeError)"
| "model_attrs v = Inl AttributeError"

text \<open>Lines 58 and 59: \<^verbatim>\<open>set(v.__dict__.keys())\<close>.\<close>

fun dict_attrs :: "pyval \<Rightarrow> error + string list" where
  "dict_attrs (VObj c d x) = Inr (map fst d)"
| "dict_attrs v = Inl AttributeError"

text \<open>
  A Python set of names is a list without repetitions; the loop of line 65 visits it in
  that order (Python leaves the order of a set open). \<open>names_minus ns ig\<close> is
  \<^verbatim>\<open>set(ns) - ig\<close>.
\<close>

definition names_minus :: "string list \<Rightarrow> string set \<Rightarrow> string list" where
  "names_minus ns ig = filter (\<lambda>n. n \<notin> ig) (remdups ns)"

text \<open>
  Line 71: \<^verbatim>\<open>np.allclose(actual_val, desired_val)\<close>, a statement: its value is dropped.
  (Instances of subclasses of the numpy and pandas classes are not modelled as such; on
  them this function and the next two return an error.)
\<close>

fun check_array :: "pyval \<Rightarrow> pyval \<Rightarrow> error + unit" where
  "check_array (VArray a) desired_val =
     (case allclose a desired_val of Inl e \<Rightarrow> Inl e | Inr close \<Rightarrow> Inr ())"
| "check_array v desired_val = Inl TypeError"

text \<open>Line 73: \<^verbatim>\<open>assert_series_equal(actual_val, desired_val)\<close>.\<close>

fun check_series :: "pyval \<Rightarrow> pyval \<Rightarrow> error + unit" where
  "check_series (VSeries s) desired_val = assert_series_equal True s desired_val"
| "check_series v desired_val = Inl TypeError"

text \<open>
  Lines 75 to 79: \<^verbatim>\<open>assert_frame_equal(actual_val, desired_val, check_dtype=False)\<close>, then
  the kind of every column.
\<close>

fun check_frame :: "pyval \<Rightarrow> pyval \<Rightarrow> error + unit" where
  "check_frame (VFrame f) desired_val =
     (case assert_frame_equal False f desired_val of
        Inl e \<Rightarrow> Inl e
      | Inr u \<Rightarrow> check_kinds (VFrame f) desired_val (map fst (fcolumns f)))"
| "check_frame v desired_val = Inl TypeError"

text \<open>
  Lines 91 to 95: \<^verbatim>\<open>for k, v in actual_val.items()\<close>, with
  \<^verbatim>\<open>assert np.allclose(v, desired_val[k])\<close> for an array and
  \<^verbatim>\<open>assert v == desired_val[k]\<close> otherwise. The subscript is evaluated first.
\<close>

fun check_fit_entry :: "pyval \<Rightarrow> pyval \<Rightarrow> error + unit" where
  "check_fit_entry (VArray a) w =
     (case allclose a w of
        Inl e \<Rightarrow> Inl e
      | Inr close \<Rightarrow> (if close then Inr () else Inl AssertionError))"
| "check_fit_entry v w = assert_eq v w"

fun check_fit_items :: "(string \<times> pyval) list \<Rightarrow> pyval \<Rightarrow> error + unit" where
  "check_fit_items [] desired_val = Inr ()"
| "check_fit_items ((k, v) # items) desired_val =
     (case getitem desired_val k of
        Inl e \<Rightarrow> Inl e
      | Inr w \<Rightarrow>
          (case check_fit_entry v w of
             Inl e \<Rightarrow> Inl e
           | Inr u \<Rightarrow> check_fit_items items desired_val))"

fun check_fit_params :: "pyval \<Rightarrow> pyval \<Rightarrow> error + unit" where
  "check_fit_params (VDict items) desired_val = check_fit_items items desired_val"
| "check_fit_params v desired_val = Inl AttributeError"

lemma lookup_size:
  "lookup d n = Some v \<Longrightarrow> size v < Suc (size_list (size_prod (\<lambda>k. 0) size) d)"
  by (induction d) (auto split: if_splits)

lemma getattr_size: "getattr a n = Inr v \<Longrightarrow> size v < size a"
  by (cases a) (auto split: option.splits if_splits dest: lookup_size)

text \<open>
  Lines 49 to 59: the attribute names of \<open>v\<close>, read the way \<open>actual\<close> decides (the
  test of line 49 is on \<open>actual\<close> for both instances).
\<close>

definition attribute_names :: "pyval \<Rightarrow> pyval \<Rightarrow> error + string list" where
  "attribute_names actual v =
     (if isinstance actual ''BaseModel'' then model_attrs v else dict_attrs v)"

text \<open>
  \<open>compare_attributes\<close> is the loop of line 65 and \<open>compare_value\<close> its body from line 69
  on, for the attribute \<open>attr\<close> and the two values read from the instances.
\<close>

function compare_class_instances :: "pyval \<Rightarrow> pyval \<Rightarrow> string set \<Rightarrow> error + unit"
  and compare_attributes :: "pyval \<Rightarrow> pyval \<Rightarrow> string list \<Rightarrow> error + unit"
  and compare_value :: "string \<Rightarrow> pyval \<Rightarrow> pyval \<Rightarrow> error + unit"
where
  "compare_class_instances actual desired ignore_attributes =
     (if \<not> isinstance actual (type_name desired) then Inl AssertionError
      else (case attribute_names actual actual of
              Inl e \<Rightarrow> Inl e
            | Inr names \<Rightarrow>
                (case attribute_names actual desired of
                   Inl e \<Rightarrow> Inl e
                 | Inr desired_names \<Rightarrow>
                     (if set (names_minus names ignore_attributes)
                           \<noteq> set (names_minus desired_names ignore_attributes)
                      then Inl AssertionError
                      else compare_attributes actual desired
                             (names_minus names ignore_attributes)))))"
| "compare_attributes actual desired [] = Inr ()"
| "compare_attributes actual desired (attr # attrs) =
     (case getattr actual attr of
        Inl e \<Rightarrow> Inl e
      | Inr actual_val \<Rightarrow>
          (case getattr desired attr of
             Inl e \<Rightarrow> Inl e
           | Inr desired_val \<Rightarrow>
               (case compare_value attr actual_val desired_val of
                  Inl e \<Rightarrow> Inl e
                | Inr u \<Rightarrow> compare_attributes actual desired attrs)))"
| "compare_value attr actual_val desired_val =
     (if isinstance actual_val ''ndarray'' then check_array actual_val desired_val
      else if isinstance actual_val ''Series'' then check_series actual_val desired_val
      else if isinstance actual_val ''DataFrame'' then check_frame actual_val desired_val
      else if isinstance actual_val ''BaseModel''
        then compare_class_instances actual_val desired_val {}
      else if isinstance actual_val ''ModelBackendBase''
        then compare_class_instances actual_val desired_val {''stan_fit'', ''model''}
      else if attr = ''fit_params'' then check_fit_params actual_val desired_val
      else assert_eq actual_val desired_val)"
  by pat_completeness auto
termination
  by (relation "inv_image (less_than <*lex*> less_than <*lex*> less_than)
        (\<lambda>a. case a of
           Inl (actual, desired, ig) \<Rightarrow> (size actual, Suc 0, 0)
         | Inr (Inl (actual, desired, attrs)) \<Rightarrow> (size actual, 0, length attrs)
         | Inr (Inr (attr, actual_val, desired_val)) \<Rightarrow> (size actual_val, 2, 0))")
     (auto dest: getattr_size)

declare compare_class_instances.simps [simp del]
declare compare_value.simps [simp del]
declare py_eq.simps(1) [simp del]

section \<open>What the comparison rules say\<close>

text \<open>
  The rule for tabular values, in the specification's words and without reference to the
  functions of pandas modelled above: two frames match when their indexes match, they have
  the same column labels in the same order and, column by column, the same dtype kind and
  matching cells. The width of a column's dtype plays no part.

  Two cells have the same value when they are the same or are numbers of the same value
  (a boolean counts as 0 or 1). Two cells are close when they have the same value or are
  both integers or floating-point numbers no further apart than \<open>1e-5\<close> of the larger
  magnitude or \<open>1e-8\<close>. The cells of a column whose kind is integral (signed, unsigned,
  boolean) or complex must have the same value, those of any other column must be close.
  Two indexes match when they have the same dtype and name and their labels are close.
\<close>

fun number :: "scalar \<Rightarrow> rat option" where
  "number (SBool b) = Some (if b then 1 else 0)"
| "number (SInt i) = Some (of_int i)"
| "number (SNum x) = Some x"
| "number c = None"

definition same_value :: "scalar \<Rightarrow> scalar \<Rightarrow> bool" where
  "same_value a b = (a = b \<or> (number a \<noteq> None \<and> number a = number b))"

fun measured :: "scalar \<Rightarrow> rat option" where
  "measured (SInt i) = Some (of_int i)"
| "measured (SNum x) = Some x"
| "measured c = None"

definition near :: "rat \<Rightarrow> rat \<Rightarrow> bool" where
  "near x y = (100000 * \<bar>x - y\<bar> \<le> max \<bar>x\<bar> \<bar>y\<bar> \<or> 100000000 * \<bar>x - y\<bar> \<le> 1)"

definition close_value :: "scalar \<Rightarrow> scalar \<Rightarrow> bool" where
  "close_value a b =
     (same_value a b \<or>
      (case measured a of
         None \<Rightarrow> False
       | Some x \<Rightarrow> (case measured b of None \<Rightarrow> False | Some y \<Rightarrow> near x y)))"

definition integral_kind :: "char \<Rightarrow> bool" where
  "integral_kind k = (k = CHR ''i'' \<or> k = CHR ''u'' \<or> k = CHR ''b'' \<or> k = CHR ''c'')"

definition columns_match :: "string \<times> column \<Rightarrow> string \<times> column \<Rightarrow> bool" where
  "columns_match l r =
     (fst l = fst r \<and> kind (cdtype (snd l)) = kind (cdtype (snd r)) \<and>
      list_all2 (if integral_kind (kind (cdtype (snd l))) then same_value else close_value)
        (cvalues (snd l)) (cvalues (snd r)))"

definition index_match :: "pindex \<Rightarrow> pindex \<Rightarrow> bool" where
  "index_match i j =
     (idtype i = idtype j \<and> iname i = iname j \<and> list_all2 close_value (ilabels i) (ilabels j))"

definition frames_match :: "dataframe \<Rightarrow> dataframe \<Rightarrow> bool" where
  "frames_match f g =
     (index_match (findex f) (findex g) \<and> list_all2 columns_match (fcolumns f) (fcolumns g))"

section \<open>The codec\<close>

text \<open>
  Modelled from the spec: the serializer behind \<^verbatim>\<open>Gloria.to_json\<close> and
  \<^verbatim>\<open>Gloria.from_json\<close> (\<^verbatim>\<open>gloria.utilities.serialize\<close>) is not among the sources. The
  definitions of this section follow sections 3 and 4.1 to 4.5 of the specification: codec
  kinds, attribute registries with their exclusion sets, the dispatcher on values, the
  builder and parser of documents and the equivalence of two instances.
\<close>

datatype codec_kind = SCALAR | ARRAY | TABULAR | NESTED_ENTITY | PARAMETER_MAP

text \<open>
  Modelled from the spec: the failures of the codec named in section 7.
\<close>

datatype codec_error = SchemaMismatch | UnsupportedType | MissingAttribute | UnexpectedAttribute

text \<open>
  Modelled from the spec: the document, a mapping from attribute names to encoded forms. The
  document of an entity carries the discriminant that names the entity type.
\<close>

datatype document =
    DScalar scalar
  | DSeq "document list"
  | DMap "(string \<times> document) list"
  | DEntity string "(string \<times> document) list"

text \<open>
  Modelled from the spec: what the serializer knows of an entity type: the class of its
  instances, its registry (an ordered mapping from attribute names to codec kinds), its
  exclusion set and whether instances take attributes beyond the fixed schema. The lookup
  table \<open>schemas\<close> is keyed by the discriminant, the name of the class.
\<close>

record schema =
  entity_class :: pyclass
  registry :: "(string \<times> codec_kind) list"
  excluded :: "string list"
  extensible :: bool

text \<open>
  Modelled from the spec: the lookup table from discriminants to entity types (section 9).
\<close>

type_synonym schemas = "(string \<times> schema) list"

text \<open>The first error of a list of results, or all the values.\<close>

fun collect :: "('e + 'a) list \<Rightarrow> 'e + 'a list" where
  "collect [] = Inr []"
| "collect (r # rs) =
     (case r of
        Inl e \<Rightarrow> Inl e
      | Inr x \<Rightarrow> (case collect rs of Inl e \<Rightarrow> Inl e | Inr xs \<Rightarrow> Inr (x # xs)))"

subsection \<open>Encoding values\<close>

text \<open>
  Modelled from the spec: a dimension of a shape or a width, written as a number.
\<close>

definition encode_nat :: "nat \<Rightarrow> document" where
  "encode_nat n = DScalar (SInt (int n))"

text \<open>
  Modelled from the spec: an element of an array, written as a number.
\<close>

definition encode_num :: "rat \<Rightarrow> document" where
  "encode_num x = DScalar (SNum x)"

text \<open>
  Modelled from the spec: a dtype kind, written as its one-character name.
\<close>

definition encode_kind :: "char \<Rightarrow> document" where
  "encode_kind k = DScalar (SStr [k])"

text \<open>
  Modelled from the spec: rule 1 of the dispatcher, an array as its shape, the name of its
  dtype (the kind and the width) and its elements in order.
\<close>

definition encode_array :: "ndarray \<Rightarrow> document" where
  "encode_array a =
     DMap [(''shape'', DSeq (map encode_nat (shape a))),
           (''dtype'', DSeq [encode_kind (kind (adtype a)), encode_nat (itemsize (adtype a))]),
           (''data'', DSeq (map encode_num (data a)))]"

text \<open>
  Modelled from the spec: the index of a tabular value as the kind of its dtype, its name and
  its labels. The width of the dtype is not written.
\<close>

definition encode_index :: "pindex \<Rightarrow> document" where
  "encode_index i =
     DMap [(''kind'', encode_kind (kind (idtype i))),
           (''name'', DScalar (iname i)),
           (''labels'', DSeq (map DScalar (ilabels i)))]"

text \<open>
  Modelled from the spec: rule 2, a tabular value as its column names, the dtype kind of
  every column, its index and its cells column by column. The width of a column's dtype is
  not written.
\<close>

definition encode_frame :: "dataframe \<Rightarrow> document" where
  "encode_frame f =
     DMap [(''columns'', DSeq (map (\<lambda>nc. DScalar (SStr (fst nc))) (fcolumns f))),
           (''dtypes'', DSeq (map (\<lambda>nc. encode_kind (kind (cdtype (snd nc)))) (fcolumns f))),
           (''index'', encode_index (findex f)),
           (''data'', DSeq (map (\<lambda>nc. DSeq (map DScalar (cvalues (snd nc)))) (fcolumns f)))]"

text \<open>
  Modelled from the spec: rule 2 on a tabular value of a single column, a Series: its name,
  the kind of its dtype, its index and its cells.
\<close>

definition encode_series :: "series \<Rightarrow> document" where
  "encode_series s =
     DMap [(''name'', DScalar (sname s)),
           (''dtype'', encode_kind (kind (sdtype s))),
           (''index'', encode_index (sindex s)),
           (''data'', DSeq (map DScalar (svalues s)))]"

text \<open>
  Modelled from the spec: rule 4, an entry of a parameter map: an array by rule 1, a scalar
  as it is.
\<close>

fun encode_entry :: "string \<times> pyval \<Rightarrow> codec_error + string \<times> document" where
  "encode_entry (k, VArray a) = Inr (k, encode_array a)"
| "encode_entry (k, VScalar s) = Inr (k, DScalar s)"
| "encode_entry (k, v) = Inl UnsupportedType"

text \<open>
  Modelled from the spec: rule 5 on an element of an ordered sequence, which must be a scalar.
\<close>

fun encode_element :: "pyval \<Rightarrow> codec_error + document" where
  "encode_element (VScalar s) = Inr (DScalar s)"
| "encode_element v = Inl UnsupportedType"

text \<open>
  Modelled from the spec: the attribute names of a live instance, as the registry self-check
  enumerates them: declared and extra fields of a pydantic model, the instance dictionary
  of any other object.
\<close>

fun live_attribute_names :: "pyval \<Rightarrow> string list" where
  "live_attribute_names (VObj c d x) =
     (if ''BaseModel'' \<in> set (cname c # bases c)
      then model_fields c @ (case x of None \<Rightarrow> [] | Some e \<Rightarrow> map fst e)
      else map fst d)"
| "live_attribute_names v = []"

text \<open>
  Modelled from the spec: \<open>build\<close> (section 4.3) and the dispatcher \<open>encode_value\<close> (section
  4.2, rules 1 to 5 in their order). \<open>build\<close> runs the registry self-check (section 4.1 and
  scenario S5), walks the registry, skips excluded attributes and emits one mapping keyed by
  attribute name; a nested entity becomes a sub-document.
\<close>

function build :: "schemas \<Rightarrow> pyval \<Rightarrow> codec_error + document"
  and build_attributes :: "schemas \<Rightarrow> pyval \<Rightarrow> string list \<Rightarrow> codec_error + (string \<times> document) list"
  and encode_value :: "schemas \<Rightarrow> pyval \<Rightarrow> codec_error + document"
where
  "build S entity =
     (case lookup S (type_name entity) of
        None \<Rightarrow> Inl UnsupportedType
      | Some sch \<Rightarrow>
          (if set (live_attribute_names entity) - set (excluded sch)
                \<noteq> set (map fst (registry sch))
           then Inl SchemaMismatch
           else (case build_attributes S entity
                        (filter (\<lambda>n. n \<notin> set (excluded sch)) (map fst (registry sch))) of
                   Inl e \<Rightarrow> Inl e
                 | Inr kvs \<Rightarrow> Inr (DEntity (type_name entity) kvs))))"
| "build_attributes S entity [] = Inr []"
| "build_attributes S entity (n # ns) =
     (case getattr entity n of
        Inl e \<Rightarrow> Inl MissingAttribute
      | Inr v \<Rightarrow>
          (case encode_value S v of
             Inl e \<Rightarrow> Inl e
           | Inr enc \<Rightarrow>
               (case build_attributes S entity ns of
                  Inl e \<Rightarrow> Inl e
                | Inr kvs \<Rightarrow> Inr ((n, enc) # kvs))))"
| "encode_value S v =
     (case v of
        VArray a \<Rightarrow> Inr (encode_array a)
      | VFrame f \<Rightarrow> Inr (encode_frame f)
      | VObj c d x \<Rightarrow> build S v
      | VDict kvs \<Rightarrow>
          (case collect (map encode_entry kvs) of Inl e \<Rightarrow> Inl e | Inr es \<Rightarrow> Inr (DMap es))
      | VScalar s \<Rightarrow> Inr (DScalar s)
      | VList vs \<Rightarrow>
          (case collect (map encode_element vs) of Inl e \<Rightarrow> Inl e | Inr es \<Rightarrow> Inr (DSeq es))
      | VSeries s \<Rightarrow> Inr (encode_series s))"
  by pat_completeness auto
termination
  by (relation "inv_image (less_than <*lex*> less_than <*lex*> less_than)
        (\<lambda>a. case a of
           Inl (S, entity) \<Rightarrow> (size entity, Suc 0, 0)
         | Inr (Inl (S, entity, ns)) \<Rightarrow> (size entity, 0, length ns)
         | Inr (Inr (S, v)) \<Rightarrow> (size v, 2, 0))")
     (auto dest: getattr_size)

declare build.simps [simp del]
declare encode_value.simps [simp del]

subsection \<open>Decoding values\<close>

text \<open>
  Modelled from the spec: a dimension or width read back; only a natural number is one.
\<close>

fun decode_nat :: "document \<Rightarrow> nat option" where
  "decode_nat (DScalar (SInt i)) = (if 0 \<le> i then Some (nat i) else None)"
| "decode_nat d = None"

text \<open>
  Modelled from the spec: an element of an array read back.
\<close>

fun decode_num :: "document \<Rightarrow> rat option" where
  "decode_num (DScalar (SNum x)) = Some x"
| "decode_num d = None"

text \<open>
  Modelled from the spec: a dtype kind read back from its one-character name.
\<close>

fun decode_kind :: "document \<Rightarrow> char option" where
  "decode_kind (DScalar (SStr [k])) = Some k"
| "decode_kind d = None"

text \<open>
  Modelled from the spec: a column name read back.
\<close>

fun decode_str :: "document \<Rightarrow> string option" where
  "decode_str (DScalar (SStr s)) = Some s"
| "decode_str d = None"

text \<open>
  Modelled from the spec: a cell or scalar read back as it is.
\<close>

fun decode_scalar :: "document \<Rightarrow> scalar option" where
  "decode_scalar (DScalar s) = Some s"
| "decode_scalar d = None"

text \<open>
  Modelled from the spec: the cells of one column read back.
\<close>

fun decode_cells :: "document \<Rightarrow> scalar list option" where
  "decode_cells (DSeq ds) = those (map decode_scalar ds)"
| "decode_cells d = None"

text \<open>
  Modelled from the spec: the sequence stored under a key of an encoded form.
\<close>

definition seq_field :: "(string \<times> document) list \<Rightarrow> string \<Rightarrow> document list option" where
  "seq_field kvs n = (case lookup kvs n of Some (DSeq ds) \<Rightarrow> Some ds | _ \<Rightarrow> None)"

text \<open>
  Modelled from the spec: the dtype named by a kind and a width.
\<close>

definition decode_dtype :: "document list \<Rightarrow> dtype option" where
  "decode_dtype ds =
     (case ds of
        [dk, dw] \<Rightarrow>
          (case (decode_kind dk, decode_nat dw) of
             (Some k, Some w) \<Rightarrow> Some \<lparr>kind = k, itemsize = w\<rparr>
           | _ \<Rightarrow> None)
      | _ \<Rightarrow> None)"

text \<open>Modelled from the spec: rule 1 read backwards, the array of a shape, a dtype and the data.\<close>

definition decode_array :: "document \<Rightarrow> ndarray option" where
  "decode_array doc =
     (case doc of
        DMap kvs \<Rightarrow>
          (case (Option.bind (seq_field kvs ''shape'') (\<lambda>ds. those (map decode_nat ds)),
                 Option.bind (seq_field kvs ''dtype'') decode_dtype,
                 Option.bind (seq_field kvs ''data'') (\<lambda>ds. those (map decode_num ds))) of
             (Some s, Some t, Some xs) \<Rightarrow> Some \<lparr>shape = s, adtype = t, data = xs\<rparr>
           | _ \<Rightarrow> None)
      | _ \<Rightarrow> None)"

text \<open>
  Modelled from the spec: a column is rebuilt with the kind the document names; its width,
  which the document does not carry, is the default of 8 bytes.
\<close>

definition default_itemsize :: nat where
  "default_itemsize = 8"

text \<open>
  Modelled from the spec: an index read back, with the kind the document names and the default
  width.
\<close>

definition decode_index :: "document \<Rightarrow> pindex option" where
  "decode_index doc =
     (case doc of
        DMap kvs \<Rightarrow>
          (case (Option.bind (lookup kvs ''kind'') decode_kind,
                 Option.bind (lookup kvs ''name'') decode_scalar,
                 Option.bind (lookup kvs ''labels'') decode_cells) of
             (Some k, Some n, Some ls) \<Rightarrow>
               Some \<lparr>idtype = \<lparr>kind = k, itemsize = default_itemsize\<rparr>, iname = n, ilabels = ls\<rparr>
           | _ \<Rightarrow> None)
      | _ \<Rightarrow> None)"

text \<open>
  Modelled from the spec: rule 2 read backwards, the tabular value of the named columns, kinds,
  index and cells.
\<close>

definition decode_frame :: "document \<Rightarrow> dataframe option" where
  "decode_frame doc =
     (case doc of
        DMap kvs \<Rightarrow>
          (case (Option.bind (seq_field kvs ''columns'') (\<lambda>ds. those (map decode_str ds)),
                 Option.bind (seq_field kvs ''dtypes'') (\<lambda>ds. those (map decode_kind ds)),
                 Option.bind (lookup kvs ''index'') decode_index,
                 Option.bind (seq_field kvs ''data'') (\<lambda>ds. those (map decode_cells ds))) of
             (Some ns, Some ks, Some ix, Some cs) \<Rightarrow>
               (if length ks = length ns \<and> length cs = length ns
                then Some \<lparr>findex = ix,
                           fcolumns = map (\<lambda>(n, k, c).
                               (n, \<lparr>cdtype = \<lparr>kind = k, itemsize = default_itemsize\<rparr>,
                                    cvalues = c\<rparr>))
                             (zip ns (zip ks cs))\<rparr>
                else None)
           | _ \<Rightarrow> None)
      | _ \<Rightarrow> None)"

text \<open>
  Modelled from the spec: rule 2 read backwards on a Series, rebuilt with the kind the
  document names and the default width.
\<close>

definition decode_series :: "document \<Rightarrow> series option" where
  "decode_series doc =
     (case doc of
        DMap kvs \<Rightarrow>
          (case (Option.bind (lookup kvs ''name'') decode_scalar,
                 Option.bind (lookup kvs ''dtype'') decode_kind,
                 Option.bind (lookup kvs ''index'') decode_index,
                 Option.bind (lookup kvs ''data'') decode_cells) of
             (Some n, Some k, Some ix, Some cs) \<Rightarrow>
               Some \<lparr>sname = n, sindex = ix,
                     sdtype = \<lparr>kind = k, itemsize = default_itemsize\<rparr>, svalues = cs\<rparr>
           | _ \<Rightarrow> None)
      | _ \<Rightarrow> None)"

text \<open>
  Modelled from the spec: rule 2 read backwards: an encoded form that lists columns is a
  frame, any other a Series.
\<close>

definition decode_tabular :: "document \<Rightarrow> pyval option" where
  "decode_tabular doc =
     (case doc of
        DMap kvs \<Rightarrow>
          (case lookup kvs ''columns'' of
             None \<Rightarrow> map_option VSeries (decode_series doc)
           | Some cols \<Rightarrow> map_option VFrame (decode_frame doc))
      | _ \<Rightarrow> None)"

text \<open>Modelled from the spec: rule 4 read backwards, an entry of a parameter map.\<close>

fun decode_entry :: "string \<times> document \<Rightarrow> codec_error + string \<times> pyval" where
  "decode_entry (k, DScalar s) = Inr (k, VScalar s)"
| "decode_entry (k, d) =
     (case decode_array d of None \<Rightarrow> Inl UnsupportedType | Some a \<Rightarrow> Inr (k, VArray a))"

text \<open>Modelled from the spec: rule 5, a scalar or a sequence of scalars passes through.\<close>

fun decode_plain :: "document \<Rightarrow> codec_error + pyval" where
  "decode_plain (DScalar s) = Inr (VScalar s)"
| "decode_plain (DSeq ds) =
     (case those (map decode_scalar ds) of
        None \<Rightarrow> Inl UnsupportedType
      | Some ss \<Rightarrow> Inr (VList (map VScalar ss)))"
| "decode_plain d = Inl UnsupportedType"

text \<open>
  Modelled from the spec: an attribute the registry does not expect, kept as an extra by rule 5.
\<close>

fun decode_extra :: "string \<times> document \<Rightarrow> codec_error + string \<times> pyval" where
  "decode_extra (n, d) = (case decode_plain d of Inl e \<Rightarrow> Inl e | Inr v \<Rightarrow> Inr (n, v))"

text \<open>
  Modelled from the spec: the new instance of an entity type with the decoded attributes
  set. A pydantic model keeps its declared fields in the instance dictionary and the others
  as extras; excluded attributes are not set.
\<close>

definition construct :: "schema \<Rightarrow> (string \<times> pyval) list \<Rightarrow> pyval" where
  "construct sch avs =
     (if ''BaseModel'' \<in> set (cname (entity_class sch) # bases (entity_class sch))
      then VObj (entity_class sch)
             (filter (\<lambda>nv. fst nv \<in> set (model_fields (entity_class sch))) avs)
             (if extensible sch
              then Some (filter (\<lambda>nv. fst nv \<notin> set (model_fields (entity_class sch))) avs)
              else None)
      else VObj (entity_class sch) avs None)"

lemma lookup_document_size:
  "lookup kvs n = Some (d :: document) \<Longrightarrow> size d < size_list (size_prod (\<lambda>k. 0) size) kvs"
  by (induction kvs) (auto split: if_splits)

text \<open>
  Modelled from the spec: \<open>parse\<close> (section 4.3) and \<open>decode_value\<close> (section 4.2). Every
  attribute of the registry outside the exclusion set must be in the document
  (\<^verbatim>\<open>MissingAttribute\<close>); an attribute of the document that the registry does not expect
  is kept as an extra when the entity type is extensible (\<^verbatim>\<open>UnexpectedAttribute\<close>
  otherwise); excluded attributes are neither required nor set.
\<close>

function parse :: "schemas \<Rightarrow> document \<Rightarrow> codec_error + pyval"
  and parse_attributes :: "schemas \<Rightarrow> (string \<times> document) list \<Rightarrow> (string \<times> codec_kind) list
        \<Rightarrow> codec_error + (string \<times> pyval) list"
  and decode_value :: "schemas \<Rightarrow> codec_kind \<Rightarrow> document \<Rightarrow> codec_error + pyval"
where
  "parse S doc =
     (case doc of
        DEntity t kvs \<Rightarrow>
          (case lookup S t of
             None \<Rightarrow> Inl UnsupportedType
           | Some sch \<Rightarrow>
               (case parse_attributes S kvs
                       (filter (\<lambda>nk. fst nk \<notin> set (excluded sch)) (registry sch)) of
                  Inl e \<Rightarrow> Inl e
                | Inr avs \<Rightarrow>
                    (case collect (map decode_extra
                            (filter (\<lambda>ne. fst ne \<notin> set (map fst (registry sch))
                                       \<and> fst ne \<notin> set (excluded sch)) kvs)) of
                       Inl e \<Rightarrow> Inl e
                     | Inr extras \<Rightarrow>
                         (if extras \<noteq> [] \<and> \<not> extensible sch then Inl UnexpectedAttribute
                          else Inr (construct sch (avs @ extras))))))
      | _ \<Rightarrow> Inl UnsupportedType)"
| "parse_attributes S kvs [] = Inr []"
| "parse_attributes S kvs ((n, k) # nks) =
     (case lookup kvs n of
        None \<Rightarrow> Inl MissingAttribute
      | Some enc \<Rightarrow>
          (case decode_value S k enc of
             Inl e \<Rightarrow> Inl e
           | Inr v \<Rightarrow>
               (case parse_attributes S kvs nks of
                  Inl e \<Rightarrow> Inl e
                | Inr avs \<Rightarrow> Inr ((n, v) # avs))))"
| "decode_value S k enc =
     (case k of
        SCALAR \<Rightarrow> decode_plain enc
      | ARRAY \<Rightarrow> (case decode_array enc of None \<Rightarrow> Inl UnsupportedType | Some a \<Rightarrow> Inr (VArray a))
      | TABULAR \<Rightarrow> (case decode_tabular enc of None \<Rightarrow> Inl UnsupportedType | Some t \<Rightarrow> Inr t)
      | NESTED_ENTITY \<Rightarrow> parse S enc
      | PARAMETER_MAP \<Rightarrow>
          (case enc of
             DMap es \<Rightarrow>
               (case collect (map decode_entry es) of Inl e \<Rightarrow> Inl e | Inr kvs \<Rightarrow> Inr (VDict kvs))
           | _ \<Rightarrow> Inl UnsupportedType))"
  by pat_completeness auto
termination
  by (relation "inv_image (less_than <*lex*> less_than <*lex*> less_than)
        (\<lambda>a. case a of
           Inl (S, doc) \<Rightarrow> (size doc, 0, 0)
         | Inr (Inl (S, kvs, nks)) \<Rightarrow> (size_list (size_prod (\<lambda>k. 0) size) kvs, 0, length nks)
         | Inr (Inr (S, k, enc)) \<Rightarrow> (size enc, Suc 0, 0))")
     (auto dest: lookup_document_size)

declare parse.simps [simp del]
declare decode_value.simps [simp del]

text \<open>Modelled from the spec: the public surface of section 6.\<close>

definition to_document :: "schemas \<Rightarrow> pyval \<Rightarrow> codec_error + document" where
  "to_document S model = build S model"

text \<open>
  Modelled from the spec: the decoding half of the public surface of section 6.
\<close>

definition from_document :: "schemas \<Rightarrow> document \<Rightarrow> codec_error + pyval" where
  "from_document S doc = parse S doc"

subsection \<open>Fitted models\<close>

text \<open>
  Modelled from the spec: the values of codec kind SCALAR, a scalar or an ordered sequence of scalars (rule 5).
\<close>

fun is_scalar :: "pyval \<Rightarrow> bool" where
  "is_scalar (VScalar s) = True"
| "is_scalar v = False"

text \<open>
  Modelled from the spec: a value of codec kind SCALAR.
\<close>

fun plain_value :: "pyval \<Rightarrow> bool" where
  "plain_value (VScalar s) = True"
| "plain_value (VList vs) = list_all is_scalar vs"
| "plain_value v = False"

text \<open>
  Modelled from the spec: an entry of a parameter map, a scalar or an array.
\<close>

fun valid_entry :: "string \<times> pyval \<Rightarrow> bool" where
  "valid_entry (k, VScalar s) = True"
| "valid_entry (k, VArray a) = True"
| "valid_entry (k, v) = False"

text \<open>
  Modelled from the spec: a value of codec kind TABULAR, a frame or a Series.
\<close>

fun tabular_value :: "pyval \<Rightarrow> bool" where
  "tabular_value (VFrame f) = True"
| "tabular_value (VSeries s) = True"
| "tabular_value v = False"

text \<open>
  Modelled from the spec: what decoding makes of an encoded index: the same name and labels
  under a dtype of the same kind and the default width.
\<close>

definition canonical_index :: "pindex \<Rightarrow> pindex" where
  "canonical_index i =
     \<lparr>idtype = \<lparr>kind = kind (idtype i), itemsize = default_itemsize\<rparr>, iname = iname i,
      ilabels = ilabels i\<rparr>"

text \<open>
  Modelled from the spec: what decoding makes of an encoded column: the same cells with its
  kind and the default width (invariant I5).
\<close>

definition canonical_column :: "string \<times> column \<Rightarrow> string \<times> column" where
  "canonical_column nc =
     (fst nc, \<lparr>cdtype = \<lparr>kind = kind (cdtype (snd nc)), itemsize = default_itemsize\<rparr>,
               cvalues = cvalues (snd nc)\<rparr>)"

text \<open>
  Modelled from the spec: a frame after a round trip through the codec.
\<close>

definition canonical_frame :: "dataframe \<Rightarrow> dataframe" where
  "canonical_frame f =
     \<lparr>findex = canonical_index (findex f), fcolumns = map canonical_column (fcolumns f)\<rparr>"

text \<open>
  Modelled from the spec: a Series after a round trip through the codec.
\<close>

definition canonical_series :: "series \<Rightarrow> series" where
  "canonical_series s =
     \<lparr>sname = sname s, sindex = canonical_index (sindex s),
      sdtype = \<lparr>kind = kind (sdtype s), itemsize = default_itemsize\<rparr>, svalues = svalues s\<rparr>"

text \<open>
  Modelled from the spec: the exclusion policy of section 4.4 on an instance: a pydantic entity allows
  extras and excludes nothing, any other entity is a backend and excludes the two handles.
\<close>

definition exclusions_ok :: "pyval \<Rightarrow> schema \<Rightarrow> bool" where
  "exclusions_ok v sch =
     (case v of
        VObj c d x \<Rightarrow>
          (if ''BaseModel'' \<in> set (cname c # bases c)
           then x \<noteq> None \<and> excluded sch = [] \<and> extensible sch
           else ''ModelBackendBase'' \<in> set (cname c # bases c)
                \<and> set (excluded sch) = {''stan_fit'', ''model''})
      | _ \<Rightarrow> False)"

text \<open>
  Modelled from the spec: the fitted models the round trip is claimed for (section 3), as a
  validly constructed instance and a value of a given codec kind. The entity type of an
  instance is registered under the name of its class; the registry has one entry for every
  live attribute outside the exclusion set (invariant I1); every attribute holds a value of
  the kind its entry names.
\<close>

function valid_entity :: "schemas \<Rightarrow> pyval \<Rightarrow> bool"
  and valid_value :: "schemas \<Rightarrow> string \<Rightarrow> codec_kind \<Rightarrow> pyval \<Rightarrow> bool"
where
  "valid_entity S v =
     (case v of
        VObj c d x \<Rightarrow>
          (case lookup S (cname c) of
             None \<Rightarrow> False
           | Some sch \<Rightarrow>
               entity_class sch = c \<and> exclusions_ok v sch
               \<and> distinct (map fst (registry sch))
               \<and> set (live_attribute_names v) - set (excluded sch) = set (map fst (registry sch))
               \<and> list_all (\<lambda>nk. case getattr v (fst nk) of
                                   Inl e \<Rightarrow> False
                                 | Inr av \<Rightarrow> valid_value S (fst nk) (snd nk) av)
                    (registry sch))
      | _ \<Rightarrow> False)"
| "valid_value S n k av =
     (case k of
        SCALAR \<Rightarrow> plain_value av
      | ARRAY \<Rightarrow> is_ndarray av
      | TABULAR \<Rightarrow> tabular_value av
      | NESTED_ENTITY \<Rightarrow> valid_entity S av
      | PARAMETER_MAP \<Rightarrow> (case av of VDict kvs \<Rightarrow> list_all valid_entry kvs | _ \<Rightarrow> False))"
  by pat_completeness auto
termination
  by (relation "inv_image (less_than <*lex*> less_than)
        (\<lambda>a. case a of
           Inl (S, v) \<Rightarrow> (size v, 0)
         | Inr (S, n, k, av) \<Rightarrow> (size av, Suc 0))")
     (auto simp del: getattr.simps dest: getattr_size)

declare valid_entity.simps [simp del]

declare valid_value.simps [simp del]

text \<open>
  Modelled from the spec: the attribute mapping of an entity document.
\<close>

fun entries :: "document \<Rightarrow> (string \<times> document) list" where
  "entries (DEntity t kvs) = kvs"
| "entries d = []"

text \<open>
  Modelled from the spec: the keys of the document of an entity.
\<close>

definition document_keys :: "document \<Rightarrow> string list" where
  "document_keys d = map fst (entries d)"

subsection \<open>Equivalence\<close>

text \<open>
  Modelled from the spec: approximate equality of two numbers (section 4.5, arrays): within
  \<open>1e-8\<close> plus \<open>1e-5\<close> of the magnitude of the second.
\<close>

definition approximately_equal :: "rat \<Rightarrow> rat \<Rightarrow> bool" where
  "approximately_equal x y = (\<bar>x - y\<bar> \<le> 1 / 100000000 + \<bar>y\<bar> / 100000)"

text \<open>
  Modelled from the spec: arrays are equivalent when they have the same shape and their
  elements are approximately equal, one by one.
\<close>

definition arrays_equivalent :: "ndarray \<Rightarrow> ndarray \<Rightarrow> bool" where
  "arrays_equivalent a b = (shape a = shape b \<and> list_all2 approximately_equal (data a) (data b))"

text \<open>
  Modelled from the spec: structural equality of two indexes, the dtype compared by kind.
\<close>

definition index_equivalent :: "pindex \<Rightarrow> pindex \<Rightarrow> bool" where
  "index_equivalent i j =
     (kind (idtype i) = kind (idtype j) \<and> iname i = iname j \<and> ilabels i = ilabels j)"

text \<open>
  Modelled from the spec: structural equality of two columns, the dtype compared by kind.
\<close>

definition columns_equivalent :: "string \<times> column \<Rightarrow> string \<times> column \<Rightarrow> bool" where
  "columns_equivalent l r =
     (fst l = fst r \<and> kind (cdtype (snd l)) = kind (cdtype (snd r))
      \<and> cvalues (snd l) = cvalues (snd r))"

text \<open>
  Modelled from the spec: tabular values are equivalent when their columns, index and values
  are structurally equal, with the dtype compared by kind rather than exact width.
\<close>

definition frames_equivalent :: "dataframe \<Rightarrow> dataframe \<Rightarrow> bool" where
  "frames_equivalent f g =
     (index_equivalent (findex f) (findex g)
      \<and> list_all2 columns_equivalent (fcolumns f) (fcolumns g))"

text \<open>
  Modelled from the spec: the same rule on a tabular value of a single column.
\<close>

definition series_equivalent :: "series \<Rightarrow> series \<Rightarrow> bool" where
  "series_equivalent s t =
     (sname s = sname t \<and> index_equivalent (sindex s) (sindex t)
      \<and> kind (sdtype s) = kind (sdtype t) \<and> svalues s = svalues t)"

text \<open>
  Modelled from the spec: the entries of a parameter map are compared approximately when
  array-valued and exactly otherwise.
\<close>

fun entry_equivalent :: "pyval \<Rightarrow> pyval \<Rightarrow> bool" where
  "entry_equivalent (VArray a) w = (case w of VArray b \<Rightarrow> arrays_equivalent a b | _ \<Rightarrow> False)"
| "entry_equivalent v w = (v = w)"

text \<open>
  Modelled from the spec: parameter maps are compared per key: the two maps have the same
  keys and under every key equivalent entries.
\<close>

definition maps_equivalent :: "(string \<times> pyval) list \<Rightarrow> (string \<times> pyval) list \<Rightarrow> bool" where
  "maps_equivalent kvs lws =
     (set (map fst kvs) = set (map fst lws)
      \<and> list_all (\<lambda>k. case lookup kvs k of
                        None \<Rightarrow> False
                      | Some v \<Rightarrow> (case lookup lws k of
                                     None \<Rightarrow> False
                                   | Some w \<Rightarrow> entry_equivalent v w))
           (map fst kvs))"

text \<open>
  Modelled from the spec: the equivalence checker of section 4.5, \<open>equivalent a b ignoring\<close>.
  Two instances are equivalent when they are of the same concrete type, carry the same
  attribute names outside the ignored set and hold equivalent values under each of them. The
  rules per value: arrays approximately; tabular values structurally with the dtype by kind;
  nested entities by recursion, ignoring the exclusion set of their entity type; parameter
  maps per key; everything else by exact equality.
\<close>

function equivalent :: "schemas \<Rightarrow> pyval \<Rightarrow> pyval \<Rightarrow> string set \<Rightarrow> bool"
  and equivalent_attributes :: "schemas \<Rightarrow> pyval \<Rightarrow> pyval \<Rightarrow> string list \<Rightarrow> bool"
  and equivalent_values :: "schemas \<Rightarrow> pyval \<Rightarrow> pyval \<Rightarrow> bool"
where
  "equivalent S a b ignoring =
     (type_name a = type_name b
      \<and> set (live_attribute_names a) - ignoring = set (live_attribute_names b) - ignoring
      \<and> equivalent_attributes S a b (filter (\<lambda>n. n \<notin> ignoring) (live_attribute_names a)))"
| "equivalent_attributes S a b [] = True"
| "equivalent_attributes S a b (n # ns) =
     (case getattr a n of
        Inl e \<Rightarrow> False
      | Inr v \<Rightarrow>
          (case getattr b n of
             Inl e \<Rightarrow> False
           | Inr w \<Rightarrow> equivalent_values S v w \<and> equivalent_attributes S a b ns))"
| "equivalent_values S v w =
     (case v of
        VArray a \<Rightarrow> (case w of VArray b \<Rightarrow> arrays_equivalent a b | _ \<Rightarrow> False)
      | VFrame f \<Rightarrow> (case w of VFrame g \<Rightarrow> frames_equivalent f g | _ \<Rightarrow> False)
      | VSeries s \<Rightarrow> (case w of VSeries t \<Rightarrow> series_equivalent s t | _ \<Rightarrow> False)
      | VObj c d x \<Rightarrow>
          (case lookup S (type_name v) of
             None \<Rightarrow> equivalent S v w {}
           | Some sch \<Rightarrow> equivalent S v w (set (excluded sch)))
      | VDict kvs \<Rightarrow> (case w of VDict lws \<Rightarrow> maps_equivalent kvs lws | _ \<Rightarrow> False)
      | _ \<Rightarrow> v = w)"
  by pat_completeness auto
termination
  by (relation "inv_image (less_than <*lex*> less_than <*lex*> less_than)
        (\<lambda>a. case a of
           Inl (S, a, b, ig) \<Rightarrow> (size a, Suc 0, 0)
         | Inr (Inl (S, a, b, ns)) \<Rightarrow> (size a, 0, length ns)
         | Inr (Inr (S, v, w)) \<Rightarrow> (size v, 2, 0))")
     (auto dest: getattr_size)

declare equivalent.simps [simp del]
declare equivalent_values.simps [simp del]

section \<open>Example instances\<close>

definition vector :: "rat list \<Rightarrow> pyval" where
  "vector xs = VArray \<lparr>shape = [length xs], adtype = float64, data = xs\<rparr>"

text \<open>A pydantic model class with one declared field, and a subclass of it.\<close>

definition Model :: pyclass where
  "Model = \<lparr>cname = ''Model'', bases = [''BaseModel''], model_fields = [''x'']\<rparr>"

definition SubModel :: pyclass where
  "SubModel = \<lparr>cname = ''SubModel'', bases = [''Model'', ''BaseModel''], model_fields = [''x'']\<rparr>"

text \<open>A backend class: a plain class, below \<^verbatim>\<open>ModelBackendBase\<close>.\<close>

definition Backend :: pyclass where
  "Backend = \<lparr>cname = ''Backend'', bases = [''ModelBackendBase''], model_fields = []\<rparr>"

text \<open>The default index of two rows: the labels 0 and 1, 64 bits wide, without a name.\<close>

definition range_index :: pindex where
  "range_index = \<lparr>idtype = \<lparr>kind = CHR ''i'', itemsize = 8\<rparr>, iname = SNone,
                   ilabels = [SInt 0, SInt 1]\<rparr>"

text \<open>The integers 1 and 2 under the label \<open>y\<close>, stored \<open>w\<close> bytes wide, as a Series and as a frame.\<close>

definition int_series :: "nat \<Rightarrow> series" where
  "int_series w =
     \<lparr>sname = SStr ''y'', sindex = range_index,
      sdtype = \<lparr>kind = CHR ''i'', itemsize = w\<rparr>, svalues = [SInt 1, SInt 2]\<rparr>"

definition int_frame :: "nat \<Rightarrow> dataframe" where
  "int_frame w =
     \<lparr>findex = range_index,
      fcolumns = [(''y'', \<lparr>cdtype = \<lparr>kind = CHR ''i'', itemsize = w\<rparr>,
                           cvalues = [SInt 1, SInt 2]\<rparr>)]\<rparr>"

text \<open>
  A frame of one floating-point column \<open>y\<close> with the cells \<open>x\<close> and 2, under an index with
  the dtype \<open>t\<close> and the labels \<open>ls\<close>.
\<close>

definition float_frame :: "dtype \<Rightarrow> scalar list \<Rightarrow> rat \<Rightarrow> dataframe" where
  "float_frame t ls x =
     \<lparr>findex = \<lparr>idtype = t, iname = SNone, ilabels = ls\<rparr>,
      fcolumns = [(''y'', \<lparr>cdtype = float64, cvalues = [SNum x, SNum 2]\<rparr>)]\<rparr>"

definition int64 :: dtype where
  "int64 = \<lparr>kind = CHR ''i'', itemsize = 8\<rparr>"

definition int32 :: dtype where
  "int32 = \<lparr>kind = CHR ''i'', itemsize = 4\<rparr>"

text \<open>A parameter map with a scalar and an array entry, and a copy whose array is off by \<open>1e-7\<close>.\<close>

definition fit_params_a :: "(string \<times> pyval) list" where
  "fit_params_a = [(''alpha'', VScalar (SNum (1 / 2))), (''beta'', vector [1, 2, 3])]"

definition fit_params_b :: "(string \<times> pyval) list" where
  "fit_params_b =
     [(''alpha'', VScalar (SNum (1 / 2))), (''beta'', vector [1, 2, 3 + 1 / 10000000])]"

text \<open>
  Scenario S2 of the specification: a model with a scalar attribute, two tabular attributes
  (a frame and a Series), an array and a backend; the backend holds the parameter map and
  the two excluded handles.
\<close>

definition GloriaC :: pyclass where
  "GloriaC = \<lparr>cname = ''Gloria'', bases = [''BaseModel''], model_fields = [''model'', ''history'']\<rparr>"

definition example_schemas :: schemas where
  "example_schemas =
     [(''Gloria'', \<lparr>entity_class = GloriaC,
         registry = [(''model'', SCALAR), (''history'', TABULAR), (''trend'', TABULAR),
                     (''x'', ARRAY), (''model_backend'', NESTED_ENTITY)],
         excluded = [], extensible = True\<rparr>),
      (''Backend'', \<lparr>entity_class = Backend,
         registry = [(''fit_params'', PARAMETER_MAP)],
         excluded = [''stan_fit'', ''model''], extensible = False\<rparr>)]"

definition example_backend :: pyval where
  "example_backend = VObj Backend
     [(''stan_fit'', VScalar (SStr ''handle'')), (''model'', VScalar (SStr ''handle'')),
      (''fit_params'', VDict fit_params_a)] None"

definition example_model :: pyval where
  "example_model = VObj GloriaC
     [(''model'', VScalar (SStr ''normal'')), (''history'', VFrame (int_frame 4))]
     (Some [(''trend'', VSeries (int_series 8)), (''x'', vector [1, 2, 3]),
            (''model_backend'', example_backend)])"


section \<open>Properties of the loop\<close>

lemma set_names_minus: "set (names_minus ns ig) = set ns - ig"
  by (auto simp: names_minus_def)

lemma compare_attributes_ok_iff:
  "compare_attributes a d attrs = Inr () \<longleftrightarrow>
     (\<forall>x\<in>set attrs. compare_attributes a d [x] = Inr ())"
  by (induction attrs) (auto split: sum.splits)

lemma compare_ok_attribute:
  assumes "compare_class_instances a d ig = Inr ()"
    and "attribute_names a a = Inr names" and "x \<in> set names" and "x \<notin> ig"
  shows "compare_attributes a d [x] = Inr ()"
proof -
  from assms(1,2) have "compare_attributes a d (names_minus names ig) = Inr ()"
    by (simp add: compare_class_instances.simps split: if_splits sum.splits)
  moreover have "x \<in> set (names_minus names ig)"
    using assms(3,4) by (simp add: set_names_minus)
  ultimately show ?thesis
    using compare_attributes_ok_iff[of a d "names_minus names ig"] by blast
qed

lemma compare_single:
  "getattr a x = Inr av \<Longrightarrow> getattr d x = Inr dv \<Longrightarrow>
   (compare_attributes a d [x] = Inr ()) = (compare_value x av dv = Inr ())"
  by (simp split: sum.splits)

lemma compare_array_value:
  "compare_value attr (VArray a) d = check_array (VArray a) d"
  by (simp add: compare_value.simps isinstance_def)

lemma compare_series_value:
  "compare_value attr (VSeries s) d = assert_series_equal True s d"
  by (simp add: compare_value.simps isinstance_def)

lemma compare_frame_value:
  "compare_value attr (VFrame f) d = check_frame (VFrame f) d"
  by (simp add: compare_value.simps isinstance_def)

lemma compare_fit_params_value:
  "compare_value ''fit_params'' (VDict kvs) d = check_fit_items kvs d"
  by (simp add: compare_value.simps isinstance_def)

section \<open>Array attributes\<close>

text \<open>The array branch passes whenever \<^verbatim>\<open>np.allclose\<close> returns, whatever it returns.\<close>

lemma array_check_ignores_result:
  "(compare_value attr (VArray a) d = Inr ()) = (\<exists>close. allclose a d = Inr close)"
  by (cases "allclose a d") (simp_all add: compare_array_value)

text \<open>
  C4. An array attribute is handed to \<^verbatim>\<open>np.allclose\<close>, a tolerance-based comparison, but
  line 71 drops its result: two models whose array attribute \<open>x\<close> is \<open>[1.0]\<close> in one and
  \<open>[2.0]\<close> in the other, which \<^verbatim>\<open>np.allclose\<close> tells apart, pass the check. The same two
  arrays inside \<open>fit_params\<close>, where line 93 asserts the result, fail it.
\<close>

theorem array_mismatch_passes:
  "allclose \<lparr>shape = [1], adtype = float64, data = [1]\<rparr> (vector [2]) = Inr False
   \<and> compare_class_instances
         (VObj Model [(''x'', vector [1])] (Some []))
         (VObj Model [(''x'', vector [2])] (Some [])) {} = Inr ()
   \<and> compare_class_instances
         (VObj Backend [(''fit_params'', VDict [(''beta'', vector [1])])] None)
         (VObj Backend [(''fit_params'', VDict [(''beta'', vector [2])])] None)
         {''stan_fit'', ''model''} = Inl AssertionError"
  by code_simp

section \<open>The type test\<close>

text \<open>
  When the class of \<open>desired\<close> is not among the classes of \<open>actual\<close>, the check fails at
  line 46, before any attribute is read.
\<close>

lemma type_mismatch_fails:
  "\<not> isinstance actual (type_name desired) \<Longrightarrow>
   compare_class_instances actual desired ig = Inl AssertionError"
  by (simp add: compare_class_instances.simps)

text \<open>
  C7. Line 46 is \<^verbatim>\<open>assert isinstance(actual, type(desired))\<close>: an instance of a subclass
  of the desired instance's class passes it. A \<open>SubModel\<close> compared with a \<open>Model\<close> of the
  same attributes passes the whole check, although the two concrete types differ; the
  other way round the check fails.
\<close>

theorem subclass_instance_passes:
  "type_name (VObj SubModel [(''x'', VScalar (SNum 1))] (Some []))
     \<noteq> type_name (VObj Model [(''x'', VScalar (SNum 1))] (Some []))
   \<and> compare_class_instances
         (VObj SubModel [(''x'', VScalar (SNum 1))] (Some []))
         (VObj Model [(''x'', VScalar (SNum 1))] (Some [])) {} = Inr ()
   \<and> compare_class_instances
         (VObj Model [(''x'', VScalar (SNum 1))] (Some []))
         (VObj SubModel [(''x'', VScalar (SNum 1))] (Some [])) {} = Inl AssertionError"
  by code_simp

section \<open>Attribute names\<close>

text \<open>
  C9. The checker requires the two instances to carry the same attribute names outside the
  ignore set: when both enumerations of names succeed and the two sets of names that are
  not ignored differ, in either direction, the check fails with an \<^verbatim>\<open>AssertionError\<close>
  (line 62, or already line 46).
\<close>

theorem attribute_sets_must_agree:
  assumes "attribute_names actual actual = Inr names"
    and "attribute_names actual desired = Inr desired_names"
    and "set names - ig \<noteq> set desired_names - ig"
  shows "compare_class_instances actual desired ig = Inl AssertionError"
  using assms by (simp add: compare_class_instances.simps set_names_minus)

theorem attribute_sets_must_agree_witness:
  "attribute_names (VObj Model [(''x'', VScalar (SNum 1))] (Some []))
     (VObj Model [(''x'', VScalar (SNum 1))] (Some [])) = Inr [''x'']
   \<and> attribute_names (VObj Model [(''x'', VScalar (SNum 1))] (Some []))
     (VObj Model [(''x'', VScalar (SNum 1))] (Some [(''note'', VScalar (SStr ''a''))]))
       = Inr [''x'', ''note'']
   \<and> compare_class_instances (VObj Model [(''x'', VScalar (SNum 1))] (Some []))
     (VObj Model [(''x'', VScalar (SNum 1))] (Some [(''note'', VScalar (SStr ''a''))])) {}
       = Inl AssertionError"
proof -
  let ?a = "VObj Model [(''x'', VScalar (SNum 1))] (Some [])"
  let ?d = "VObj Model [(''x'', VScalar (SNum 1))] (Some [(''note'', VScalar (SStr ''a''))])"
  have a: "attribute_names ?a ?a = Inr [''x'']"
    by (simp add: attribute_names_def isinstance_def Model_def)
  have d: "attribute_names ?a ?d = Inr [''x'', ''note'']"
    by (simp add: attribute_names_def isinstance_def Model_def)
  have ne: "set [''x''] - {} \<noteq> set [''x'', ''note''] - ({} :: string set)"
    by auto
  show ?thesis
    using a d attribute_sets_must_agree[OF a d ne] by simp
qed

section \<open>Series attributes\<close>

lemma series_dtype_differs:
  "sdtype s \<noteq> sdtype t \<Longrightarrow> assert_series_equal True s (VSeries t) = Inl AssertionError"
  by (simp add: assert_series_equal_def values_equal_def)

text \<open>
  C10. A Series attribute is compared by \<^verbatim>\<open>assert_series_equal\<close> with its defaults, which
  checks the dtype itself: when an attribute that is compared holds a Series in both
  instances and the two dtypes differ, in kind or only in width, the check fails.
\<close>

theorem series_dtype_must_agree:
  assumes "attribute_names actual actual = Inr names" and "attr \<in> set names" and "attr \<notin> ig"
    and "getattr actual attr = Inr (VSeries s)" and "getattr desired attr = Inr (VSeries t)"
    and "sdtype s \<noteq> sdtype t"
  shows "compare_class_instances actual desired ig \<noteq> Inr ()"
proof
  assume "compare_class_instances actual desired ig = Inr ()"
  then have "compare_attributes actual desired [attr] = Inr ()"
    using assms(1-3) by (rule compare_ok_attribute)
  moreover have "compare_value attr (VSeries s) (VSeries t) = Inl AssertionError"
    using assms(6) by (simp add: compare_series_value series_dtype_differs)
  ultimately show False
    using assms(4,5) by simp
qed

theorem series_dtype_must_agree_witness:
  "kind (sdtype (int_series 4)) = kind (sdtype (int_series 8))
   \<and> svalues (int_series 4) = svalues (int_series 8)
   \<and> sdtype (int_series 4) \<noteq> sdtype (int_series 8)
   \<and> compare_class_instances (VObj Model [(''x'', VSeries (int_series 4))] (Some []))
        (VObj Model [(''x'', VSeries (int_series 8))] (Some [])) {} \<noteq> Inr ()
   \<and> compare_class_instances (VObj Model [(''x'', VFrame (int_frame 4))] (Some []))
        (VObj Model [(''x'', VFrame (int_frame 8))] (Some [])) {} = Inr ()"
proof -
  let ?a = "VObj Model [(''x'', VSeries (int_series 4))] (Some [])"
  let ?d = "VObj Model [(''x'', VSeries (int_series 8))] (Some [])"
  have n: "attribute_names ?a ?a = Inr [''x'']"
    by (simp add: attribute_names_def isinstance_def Model_def)
  have ga: "getattr ?a ''x'' = Inr (VSeries (int_series 4))" by simp
  have gd: "getattr ?d ''x'' = Inr (VSeries (int_series 8))" by simp
  have ne: "sdtype (int_series 4) \<noteq> sdtype (int_series 8)"
    by (simp add: int_series_def)
  have fails: "compare_class_instances ?a ?d {} \<noteq> Inr ()"
    using series_dtype_must_agree[OF n _ _ ga gd ne, of "{}"] by simp
  have frames: "compare_class_instances (VObj Model [(''x'', VFrame (int_frame 4))] (Some []))
        (VObj Model [(''x'', VFrame (int_frame 8))] (Some [])) {} = Inr ()"
    by code_simp
  show ?thesis
    using ne fails frames by (simp add: int_series_def)
qed

section \<open>Tabular attributes\<close>

lemma check_kinds_ok:
  "check_kinds a d cols = Inr () \<longleftrightarrow>
     (\<forall>c\<in>set cols. \<exists>da dd. column_dtype a c = Inr da \<and> column_dtype d c = Inr dd
        \<and> kind da = kind dd)"
  by (induction cols) (auto split: sum.splits)

lemma filter_label:
  "distinct (map fst xs) \<Longrightarrow> i < length xs \<Longrightarrow>
   filter (\<lambda>nc. fst nc = fst (xs ! i)) xs = [xs ! i]"
proof (induction xs arbitrary: i)
  case Nil
  then show ?case by simp
next
  case (Cons x xs)
  show ?case
  proof (cases i)
    case 0
    have "fst x \<notin> fst ` set xs" using Cons.prems(1) by simp
    then have "\<forall>nc\<in>set xs. fst nc \<noteq> fst x" by (metis image_eqI)
    then have "filter (\<lambda>nc. fst nc = fst x) xs = []"
      by (simp add: filter_empty_conv)
    then show ?thesis using 0 by simp
  next
    case (Suc j)
    then have j: "j < length xs" using Cons.prems(2) by simp
    then have "fst (xs ! j) \<noteq> fst x"
      using Cons.prems(1) by (metis distinct.simps(2) list.simps(9) nth_map nth_mem length_map)
    then show ?thesis using Suc Cons.IH[of j] Cons.prems(1) j by simp
  qed
qed

text \<open>A label that occurs twice among the columns selects more than one of them.\<close>

lemma repeated_label:
  "\<not> distinct (map fst xs) \<Longrightarrow>
   \<exists>c\<in>set (map fst xs). \<exists>x y zs. filter (\<lambda>nc. fst nc = c) xs = x # y # zs"
proof (induction xs)
  case Nil
  then show ?case by simp
next
  case (Cons x xs)
  show ?case
  proof (cases "fst x \<in> set (map fst xs)")
    case True
    then obtain y where y: "y \<in> set xs" "fst y = fst x" by auto
    then have "filter (\<lambda>nc. fst nc = fst x) xs \<noteq> []"
      by (auto simp: filter_empty_conv)
    then obtain y' zs where "filter (\<lambda>nc. fst nc = fst x) xs = y' # zs"
      by (cases "filter (\<lambda>nc. fst nc = fst x) xs") auto
    then have "filter (\<lambda>nc. fst nc = fst x) (x # xs) = x # y' # zs" by simp
    then show ?thesis by (metis list.set_intros(1) list.simps(9))
  next
    case False
    then have "\<not> distinct (map fst xs)" using Cons.prems by simp
    from Cons.IH[OF this] obtain c x' y zs where
      c: "c \<in> set (map fst xs)" "filter (\<lambda>nc. fst nc = c) xs = x' # y # zs" by blast
    have "fst x \<noteq> c" using False c(1) by auto
    then have "filter (\<lambda>nc. fst nc = c) (x # xs) = x' # y # zs" using c(2) by simp
    then show ?thesis using c(1) by (metis list.set_intros(2) list.simps(9))
  qed
qed

lemma check_kinds_distinct:
  assumes "check_kinds (VFrame f) d (map fst (fcolumns f)) = Inr ()"
  shows "distinct (map fst (fcolumns f))"
proof (rule ccontr)
  assume "\<not> distinct (map fst (fcolumns f))"
  from repeated_label[OF this] obtain c x y zs where
    c: "c \<in> set (map fst (fcolumns f))" "filter (\<lambda>nc. fst nc = c) (fcolumns f) = x # y # zs"
    by blast
  then have "column_dtype (VFrame f) c = Inl AttributeError"
    by (simp add: column_dtype_def)
  moreover from assms c(1) obtain da where "column_dtype (VFrame f) c = Inr da"
    unfolding check_kinds_ok by blast
  ultimately show False by simp
qed

lemma column_dtype_nth:
  "distinct (map fst (fcolumns f)) \<Longrightarrow> i < length (fcolumns f) \<Longrightarrow>
   column_dtype (VFrame f) (fst (fcolumns f ! i)) = Inr (cdtype (snd (fcolumns f ! i)))"
  by (simp add: column_dtype_def filter_label)

lemma check_kinds_frames:
  assumes "distinct (map fst (fcolumns f))" "map fst (fcolumns f) = map fst (fcolumns g)"
  shows "check_kinds (VFrame f) (VFrame g) (map fst (fcolumns f)) = Inr () \<longleftrightarrow>
         (\<forall>i<length (fcolumns f).
            kind (cdtype (snd (fcolumns f ! i))) = kind (cdtype (snd (fcolumns g ! i))))"
proof -
  have len: "length (fcolumns f) = length (fcolumns g)"
    using assms(2) by (metis length_map)
  have dg: "distinct (map fst (fcolumns g))" using assms by simp
  have lab: "\<And>i. i < length (fcolumns f) \<Longrightarrow> fst (fcolumns g ! i) = fst (fcolumns f ! i)"
    using assms(2) len by (metis nth_map)
  show ?thesis
  proof
    assume ok: "check_kinds (VFrame f) (VFrame g) (map fst (fcolumns f)) = Inr ()"
    show "\<forall>i<length (fcolumns f).
            kind (cdtype (snd (fcolumns f ! i))) = kind (cdtype (snd (fcolumns g ! i)))"
    proof (intro allI impI)
      fix i assume i: "i < length (fcolumns f)"
      then have "fst (fcolumns f ! i) \<in> set (map fst (fcolumns f))" by simp
      with ok obtain da dd where
        "column_dtype (VFrame f) (fst (fcolumns f ! i)) = Inr da"
        "column_dtype (VFrame g) (fst (fcolumns f ! i)) = Inr dd" "kind da = kind dd"
        unfolding check_kinds_ok by blast
      then show "kind (cdtype (snd (fcolumns f ! i))) = kind (cdtype (snd (fcolumns g ! i)))"
        using column_dtype_nth[OF assms(1) i] column_dtype_nth[OF dg, of i] i len lab[OF i]
        by simp
    qed
  next
    assume k: "\<forall>i<length (fcolumns f).
                 kind (cdtype (snd (fcolumns f ! i))) = kind (cdtype (snd (fcolumns g ! i)))"
    show "check_kinds (VFrame f) (VFrame g) (map fst (fcolumns f)) = Inr ()"
      unfolding check_kinds_ok
    proof
      fix c assume "c \<in> set (map fst (fcolumns f))"
      then obtain i where i: "i < length (fcolumns f)" and c: "c = fst (fcolumns f ! i)"
        by (auto simp: in_set_conv_nth)
      show "\<exists>da dd. column_dtype (VFrame f) c = Inr da \<and> column_dtype (VFrame g) c = Inr dd
              \<and> kind da = kind dd"
        using column_dtype_nth[OF assms(1) i] column_dtype_nth[OF dg, of i] i len lab[OF i] k c
        by simp
    qed
  qed
qed

text \<open>The functions of pandas on cells, in the terms of the rule.\<close>

lemma scalar_eq_same_value: "scalar_eq a b = same_value a b"
  by (cases a; cases b) (auto simp: same_value_def)

lemma math_isclose_near: "math_isclose x y = near x y"
proof -
  have "\<bar>x - y\<bar> \<le> rtol * max \<bar>x\<bar> \<bar>y\<bar> \<longleftrightarrow> 100000 * \<bar>x - y\<bar> \<le> max \<bar>x\<bar> \<bar>y\<bar>"
    by (simp add: rtol_def field_simps)
  moreover have "\<bar>x - y\<bar> \<le> atol \<longleftrightarrow> 100000000 * \<bar>x - y\<bar> \<le> 1"
    by (simp add: atol_def field_simps)
  ultimately show ?thesis
    by (simp add: math_isclose_def near_def le_max_iff_disj)
qed

lemma real_of_measured: "real_of a = measured a"
  by (cases a) auto

lemma cell_equal_exact: "cell_equal True a b = same_value a b"
  by (simp add: cell_equal_def scalar_eq_same_value del: scalar_eq.simps)

lemma cell_equal_close: "cell_equal False a b = close_value a b"
  by (simp add: cell_equal_def close_value_def scalar_eq_same_value real_of_measured
        math_isclose_near del: scalar_eq.simps split: option.splits)

lemma check_exact_same_kind:
  "kind l = kind r \<Longrightarrow> check_exact l r = integral_kind (kind l)"
  by (auto simp: check_exact_def integral_kind_def numeric_kind_def)

lemma index_equal_match: "index_equal i j = index_match i j"
  by (auto simp: index_equal_def index_match_def cell_equal_close[abs_def]
        dest: list_all2_lengthD)

lemma assert_frame_equal_ok:
  "assert_frame_equal False f d = Inr () \<longleftrightarrow>
     (\<exists>g. d = VFrame g \<and> index_match (findex f) (findex g)
        \<and> map fst (fcolumns f) = map fst (fcolumns g)
        \<and> list_all2 (column_equal False) (fcolumns f) (fcolumns g))"
  by (cases d)
     (auto simp: assert_frame_equal_def index_equal_match index_match_def
           dest: list_all2_lengthD map_eq_imp_length_eq)

lemma column_equal_match:
  assumes "fst l = fst r" and "kind (cdtype (snd l)) = kind (cdtype (snd r))"
  shows "column_equal False l r = columns_match l r"
  using assms
  by (auto simp: column_equal_def values_equal_def columns_match_def check_exact_same_kind
        cell_equal_exact[abs_def] cell_equal_close[abs_def] dest: list_all2_lengthD)

lemma check_frame_ok:
  "(check_frame (VFrame f) d = Inr ())
     = (\<exists>g. d = VFrame g \<and> distinct (map fst (fcolumns f)) \<and> frames_match f g)"
proof
  assume ok: "check_frame (VFrame f) d = Inr ()"
  then have a: "assert_frame_equal False f d = Inr ()"
    and k: "check_kinds (VFrame f) d (map fst (fcolumns f)) = Inr ()"
    by (auto split: sum.splits)
  have dist: "distinct (map fst (fcolumns f))" using k by (rule check_kinds_distinct)
  from a obtain g where g: "d = VFrame g" "index_match (findex f) (findex g)"
    "map fst (fcolumns f) = map fst (fcolumns g)"
    "list_all2 (column_equal False) (fcolumns f) (fcolumns g)"
    unfolding assert_frame_equal_ok by blast
  have kinds: "\<forall>i<length (fcolumns f).
      kind (cdtype (snd (fcolumns f ! i))) = kind (cdtype (snd (fcolumns g ! i)))"
    using k g(1) check_kinds_frames[OF dist g(3)] by simp
  have "list_all2 columns_match (fcolumns f) (fcolumns g)"
    unfolding list_all2_conv_all_nth
  proof (intro conjI allI impI)
    show "length (fcolumns f) = length (fcolumns g)" using g(4) by (rule list_all2_lengthD)
  next
    fix i assume i: "i < length (fcolumns f)"
    have l: "fst (fcolumns f ! i) = fst (fcolumns g ! i)"
      using g(3) i by (metis length_map nth_map)
    have ce: "column_equal False (fcolumns f ! i) (fcolumns g ! i)"
      using g(4) i by (simp add: list_all2_conv_all_nth)
    have "kind (cdtype (snd (fcolumns f ! i))) = kind (cdtype (snd (fcolumns g ! i)))"
      using kinds i by simp
    from column_equal_match[OF l this] ce
    show "columns_match (fcolumns f ! i) (fcolumns g ! i)" by simp
  qed
  then show "\<exists>g. d = VFrame g \<and> distinct (map fst (fcolumns f)) \<and> frames_match f g"
    using g(1,2) dist by (simp add: frames_match_def)
next
  assume "\<exists>g. d = VFrame g \<and> distinct (map fst (fcolumns f)) \<and> frames_match f g"
  then obtain g where g: "d = VFrame g" "index_match (findex f) (findex g)"
    "list_all2 columns_match (fcolumns f) (fcolumns g)"
    and dist: "distinct (map fst (fcolumns f))"
    by (auto simp: frames_match_def)
  have len: "length (fcolumns f) = length (fcolumns g)" using g(3) by (rule list_all2_lengthD)
  have nth: "\<And>i. i < length (fcolumns f) \<Longrightarrow>
      columns_match (fcolumns f ! i) (fcolumns g ! i)"
    using g(3) by (simp add: list_all2_conv_all_nth)
  have labels: "map fst (fcolumns f) = map fst (fcolumns g)"
    using len nth by (auto simp: list_eq_iff_nth_eq columns_match_def)
  have kinds: "\<forall>i<length (fcolumns f).
      kind (cdtype (snd (fcolumns f ! i))) = kind (cdtype (snd (fcolumns g ! i)))"
    using nth by (simp add: columns_match_def)
  have ce: "list_all2 (column_equal False) (fcolumns f) (fcolumns g)"
    unfolding list_all2_conv_all_nth
  proof (intro conjI allI impI)
    show "length (fcolumns f) = length (fcolumns g)" by (rule len)
  next
    fix i assume i: "i < length (fcolumns f)"
    have l: "fst (fcolumns f ! i) = fst (fcolumns g ! i)"
      using nth[OF i] by (simp add: columns_match_def)
    have "kind (cdtype (snd (fcolumns f ! i))) = kind (cdtype (snd (fcolumns g ! i)))"
      using kinds i by simp
    from column_equal_match[OF l this] nth[OF i]
    show "column_equal False (fcolumns f ! i) (fcolumns g ! i)" by simp
  qed
  have a: "assert_frame_equal False f d = Inr ()"
    unfolding assert_frame_equal_ok using g(1,2) labels ce by simp
  have k: "check_kinds (VFrame f) (VFrame g) (map fst (fcolumns f)) = Inr ()"
    using check_kinds_frames[OF dist labels] kinds by simp
  show "check_frame (VFrame f) d = Inr ()"
    using a k g(1) by simp
qed

text \<open>
  C5. For an attribute that holds a DataFrame, the loop passes exactly when the desired
  value is a DataFrame that matches it in structure and values: the indexes match (same
  dtype and name, labels close), the column labels are the same in the same order, each
  occurring once, and column by column the dtype kind is the same and the cells match (the
  same value in a column of integral kind, close values otherwise). The width of a column's
  dtype does not enter the condition.
\<close>

theorem frame_attribute_check:
  assumes "getattr actual attr = Inr (VFrame f)" and "getattr desired attr = Inr d"
  shows "(compare_attributes actual desired [attr] = Inr ())
           = (\<exists>g. d = VFrame g \<and> distinct (map fst (fcolumns f)) \<and> frames_match f g)"
  using compare_single[OF assms(1,2)] check_frame_ok[of f d]
  by (simp only: compare_frame_value)

theorem frame_attribute_check_witness:
  "cdtype (snd (hd (fcolumns (int_frame 4)))) \<noteq> cdtype (snd (hd (fcolumns (int_frame 8))))
   \<and> compare_attributes (VObj Model [(''x'', VFrame (int_frame 4))] (Some []))
        (VObj Model [(''x'', VFrame (int_frame 8))] (Some [])) [''x''] = Inr ()
   \<and> compare_attributes (VObj Model [(''x'', VFrame (int_frame 8))] (Some []))
        (VObj Model [(''x'', VFrame (float_frame int64 [SInt 0, SInt 1] 1))] (Some [])) [''x''] \<noteq> Inr ()
   \<and> compare_attributes (VObj Model [(''x'', VFrame (float_frame int64 [SInt 0, SInt 1] 1))] (Some []))
        (VObj Model [(''x'', VFrame (float_frame int64 [SInt 0, SInt 1] (1 + 1 / 10000000)))] (Some []))
        [''x''] = Inr ()
   \<and> compare_attributes (VObj Model [(''x'', VFrame (float_frame int64 [SInt 0, SInt 1] 1))] (Some []))
        (VObj Model [(''x'', VFrame (float_frame int64 [SInt 0, SInt 1] 3))] (Some [])) [''x''] \<noteq> Inr ()
   \<and> compare_attributes (VObj Model [(''x'', VFrame (float_frame int64 [SInt 0, SInt 1] 1))] (Some []))
        (VObj Model [(''x'', VFrame (float_frame int32 [SInt 0, SInt 1] 1))] (Some [])) [''x''] \<noteq> Inr ()
   \<and> compare_attributes (VObj Model [(''x'', VFrame (float_frame float64 [SNum 0, SNum 1] 1))] (Some []))
        (VObj Model [(''x'', VFrame (float_frame float64 [SNum (1 / 1000000000), SNum 1] 1))] (Some []))
        [''x''] = Inr ()"
proof -
  have g: "\<And>f. getattr (VObj Model [(''x'', VFrame f)] (Some [])) ''x'' = Inr (VFrame f)"
    by simp
  have w: "cdtype (snd (hd (fcolumns (int_frame 4)))) \<noteq> cdtype (snd (hd (fcolumns (int_frame 8))))"
    by (simp add: int_frame_def)
  have d: "distinct (map fst (fcolumns (int_frame w)))"
    "distinct (map fst (fcolumns (float_frame t l x)))" for w t l x
    by (simp_all add: int_frame_def float_frame_def)
  have width: "frames_match (int_frame 4) (int_frame 8)" by code_simp
  have kinds: "\<not> frames_match (int_frame 8) (float_frame int64 [SInt 0, SInt 1] 1)" by code_simp
  have near: "frames_match (float_frame int64 [SInt 0, SInt 1] 1)
                (float_frame int64 [SInt 0, SInt 1] (1 + 1 / 10000000))" by code_simp
  have far: "\<not> frames_match (float_frame int64 [SInt 0, SInt 1] 1) (float_frame int64 [SInt 0, SInt 1] 3)"
    by code_simp
  have index: "\<not> frames_match (float_frame int64 [SInt 0, SInt 1] 1) (float_frame int32 [SInt 0, SInt 1] 1)"
    by code_simp
  have labels: "frames_match (float_frame float64 [SNum 0, SNum 1] 1)
                  (float_frame float64 [SNum (1 / 1000000000), SNum 1] 1)" by code_simp
  show ?thesis
    using w d width kinds near far index labels
      frame_attribute_check[OF g g, of "int_frame 4" "int_frame 8"]
      frame_attribute_check[OF g g, of "int_frame 8" "float_frame int64 [SInt 0, SInt 1] 1"]
      frame_attribute_check[OF g g, of "float_frame int64 [SInt 0, SInt 1] 1"
        "float_frame int64 [SInt 0, SInt 1] (1 + 1 / 10000000)"]
      frame_attribute_check[OF g g, of "float_frame int64 [SInt 0, SInt 1] 1" "float_frame int64 [SInt 0, SInt 1] 3"]
      frame_attribute_check[OF g g, of "float_frame int64 [SInt 0, SInt 1] 1" "float_frame int32 [SInt 0, SInt 1] 1"]
      frame_attribute_check[OF g g, of "float_frame float64 [SNum 0, SNum 1] 1"
        "float_frame float64 [SNum (1 / 1000000000), SNum 1] 1"]
    by simp
qed

section \<open>Parameter maps\<close>

text \<open>
  The loop of line 91 runs over the entries of the actual map only: an actual map without
  entries passes against any desired value.
\<close>

lemma empty_fit_params_pass: "compare_value ''fit_params'' (VDict []) d = Inr ()"
  by (simp add: compare_fit_params_value)

text \<open>An entry of the actual map whose key the desired map lacks raises \<^verbatim>\<open>KeyError\<close>.\<close>

lemma missing_key_raises:
  "lookup ditems k = None \<Longrightarrow>
   compare_value ''fit_params'' (VDict ((k, v) # items)) (VDict ditems) = Inl KeyError"
  by (simp add: compare_fit_params_value)

text \<open>
  C6. The entries of \<open>fit_params\<close> are compared per key of the actual map, an array
  within the tolerance and a scalar exactly: the map of scenario S2 passes against a copy
  whose array is off by \<open>1e-7\<close>, fails against a copy whose array is off by 1 and fails
  against a copy whose scalar is off by \<open>1e-7\<close>. But the keys of the two maps are never
  compared and the entries that only the desired map has are never read: a decoded backend
  whose \<open>fit_params\<close> lost every entry passes the check against the original, so the map
  is not compared entry by entry. With the two backends exchanged the check raises
  \<^verbatim>\<open>KeyError\<close>.
\<close>

theorem fit_params_lost_entries_pass:
  "compare_class_instances
       (VObj Backend [(''fit_params'', VDict [])] None)
       (VObj Backend [(''fit_params'', VDict fit_params_a)] None)
       {''stan_fit'', ''model''} = Inr ()
   \<and> compare_class_instances
       (VObj Backend [(''fit_params'', VDict fit_params_a)] None)
       (VObj Backend [(''fit_params'', VDict [])] None)
       {''stan_fit'', ''model''} = Inl KeyError
   \<and> compare_class_instances
       (VObj Backend [(''fit_params'', VDict fit_params_a)] None)
       (VObj Backend [(''fit_params'', VDict fit_params_b)] None)
       {''stan_fit'', ''model''} = Inr ()
   \<and> compare_class_instances
       (VObj Backend [(''fit_params'', VDict fit_params_a)] None)
       (VObj Backend [(''fit_params'', VDict
          [(''alpha'', VScalar (SNum (1 / 2))), (''beta'', vector [1, 2, 4])])] None)
       {''stan_fit'', ''model''} = Inl AssertionError
   \<and> compare_class_instances
       (VObj Backend [(''fit_params'', VDict fit_params_a)] None)
       (VObj Backend [(''fit_params'', VDict
          [(''alpha'', VScalar (SNum (1 / 2 + 1 / 10000000))), (''beta'', vector [1, 2, 3])])] None)
       {''stan_fit'', ''model''} = Inl AssertionError"
  by code_simp

section \<open>Properties of the codec\<close>

subsection \<open>Decoding what was encoded\<close>

lemma those_map_Some: "(\<And>x. x \<in> set xs \<Longrightarrow> f x = Some (g x)) \<Longrightarrow> those (map f xs) = Some (map g xs)"
  by (induction xs) auto

lemma decode_encode_nat: "decode_nat (encode_nat n) = Some n"
  by (simp add: encode_nat_def)

lemma decode_encode_array: "decode_array (encode_array a) = Some a"
proof -
  have s: "those (map (decode_nat \<circ> encode_nat) (shape a)) = Some (map id (shape a))"
    by (rule those_map_Some) (simp add: decode_encode_nat)
  have d: "those (map (decode_num \<circ> encode_num) (data a)) = Some (map id (data a))"
    by (rule those_map_Some) (simp add: encode_num_def)
  show ?thesis
    using s d
    by (simp add: decode_array_def encode_array_def seq_field_def decode_dtype_def
          encode_kind_def decode_encode_nat)
qed

lemma decode_cells_encoded: "decode_cells (DSeq (map DScalar cs)) = Some cs"
proof -
  have "those (map (decode_scalar \<circ> DScalar) cs) = Some (map id cs)"
    by (rule those_map_Some) simp
  then show ?thesis by simp
qed

lemma decode_encode_index: "decode_index (encode_index i) = Some (canonical_index i)"
  by (simp add: decode_index_def encode_index_def encode_kind_def decode_cells_encoded
        canonical_index_def del: decode_cells.simps)

lemma zip3_map: "zip (map f xs) (zip (map g xs) (map h xs)) = map (\<lambda>x. (f x, g x, h x)) xs"
  by (induction xs) auto

lemma decode_encode_frame: "decode_frame (encode_frame f) = Some (canonical_frame f)"
proof -
  have n: "those (map (decode_str \<circ> (\<lambda>nc. DScalar (SStr (fst nc)))) (fcolumns f))
             = Some (map fst (fcolumns f))"
    by (rule those_map_Some) simp
  have k: "those (map (decode_kind \<circ> (\<lambda>nc. encode_kind (kind (cdtype (snd nc))))) (fcolumns f))
             = Some (map (\<lambda>nc. kind (cdtype (snd nc))) (fcolumns f))"
    by (rule those_map_Some) (simp add: encode_kind_def)
  have c: "those (map (decode_cells \<circ> (\<lambda>nc. DSeq (map DScalar (cvalues (snd nc))))) (fcolumns f))
             = Some (map (\<lambda>nc. cvalues (snd nc)) (fcolumns f))"
    by (rule those_map_Some) (simp add: decode_cells_encoded del: decode_cells.simps)
  show ?thesis
    using n k c decode_encode_index[of "findex f"]
    by (simp add: decode_frame_def encode_frame_def seq_field_def zip3_map
          canonical_frame_def canonical_column_def cong: map_cong)
qed

lemma decode_encode_series: "decode_series (encode_series s) = Some (canonical_series s)"
  using decode_encode_index[of "sindex s"] decode_cells_encoded[of "svalues s"]
  by (simp add: decode_series_def encode_series_def encode_kind_def canonical_series_def
        del: decode_cells.simps)

lemma decode_tabular_frame: "decode_tabular (encode_frame f) = Some (VFrame (canonical_frame f))"
proof -
  have "decode_tabular (encode_frame f) = map_option VFrame (decode_frame (encode_frame f))"
    by (simp add: decode_tabular_def encode_frame_def)
  then show ?thesis by (simp add: decode_encode_frame)
qed

lemma decode_tabular_series:
  "decode_tabular (encode_series s) = Some (VSeries (canonical_series s))"
proof -
  have "decode_tabular (encode_series s) = map_option VSeries (decode_series (encode_series s))"
    by (simp add: decode_tabular_def encode_series_def)
  then show ?thesis by (simp add: decode_encode_series)
qed

lemma collect_map_Inr: "(\<And>x. x \<in> set xs \<Longrightarrow> f x = Inr (g x)) \<Longrightarrow> collect (map f xs) = Inr (map g xs)"
  by (induction xs) auto

lemma decode_entry_array: "decode_entry (k, encode_array a) = Inr (k, VArray a)"
proof -
  have "decode_entry (k, encode_array a)
          = (case decode_array (encode_array a) of
               None \<Rightarrow> Inl UnsupportedType
             | Some a \<Rightarrow> Inr (k, VArray a))"
    by (simp add: encode_array_def)
  then show ?thesis by (simp add: decode_encode_array)
qed

lemma decode_encode_entry:
  "valid_entry kv \<Longrightarrow> \<exists>e. encode_entry kv = Inr e \<and> decode_entry e = Inr kv"
  by (cases kv rule: valid_entry.cases) (auto simp: decode_entry_array)

lemma entries_round_trip:
  "list_all valid_entry kvs \<Longrightarrow>
   \<exists>es. collect (map encode_entry kvs) = Inr es \<and> collect (map decode_entry es) = Inr kvs"
proof (induction kvs)
  case Nil
  then show ?case by simp
next
  case (Cons kv kvs)
  then obtain es where es: "collect (map encode_entry kvs) = Inr es"
    "collect (map decode_entry es) = Inr kvs" by auto
  from Cons.prems obtain e where e: "encode_entry kv = Inr e" "decode_entry e = Inr kv"
    using decode_encode_entry[of kv] by auto
  show ?case using es e by simp
qed

lemma plain_round_trip:
  assumes "plain_value av"
  shows "\<exists>enc. encode_value S av = Inr enc \<and> decode_plain enc = Inr av"
proof (cases av)
  case (VScalar s)
  then show ?thesis by (simp add: encode_value.simps)
next
  case (VList vs)
  define sc where "sc w = (case w of VScalar s \<Rightarrow> s | _ \<Rightarrow> SNone)" for w
  have all: "\<And>w. w \<in> set vs \<Longrightarrow> is_scalar w"
    using assms VList by (simp add: list_all_iff)
  have sc: "\<And>w. w \<in> set vs \<Longrightarrow> w = VScalar (sc w)"
    subgoal for w using all[of w] by (cases w) (simp_all add: sc_def)
    done
  have enc: "collect (map encode_element vs) = Inr (map (\<lambda>w. DScalar (sc w)) vs)"
  proof (rule collect_map_Inr)
    fix w assume "w \<in> set vs"
    then have "w = VScalar (sc w)" by (rule sc)
    then show "encode_element w = Inr (DScalar (sc w))"
      by (metis encode_element.simps(1))
  qed
  have dec: "those (map (decode_scalar \<circ> (\<lambda>w. DScalar (sc w))) vs) = Some (map sc vs)"
    by (rule those_map_Some) simp
  have again: "map (VScalar \<circ> sc) vs = vs"
    using sc by (simp add: map_idI)
  show ?thesis
    using enc dec again by (simp add: encode_value.simps VList)
qed (use assms in simp_all)

subsection \<open>A decoded value and the value it was encoded from\<close>

lemma approximately_equal_same: "approximately_equal x x"
  by (simp add: approximately_equal_def)

lemma arrays_equivalent_same: "arrays_equivalent a a"
  by (simp add: arrays_equivalent_def list_all2_same approximately_equal_same)

lemma index_equivalent_canonical: "index_equivalent (canonical_index i) i"
  by (simp add: index_equivalent_def canonical_index_def)

lemma frames_equivalent_canonical: "frames_equivalent (canonical_frame f) f"
  by (simp add: frames_equivalent_def canonical_frame_def list_all2_map1 list_all2_same
        columns_equivalent_def canonical_column_def index_equivalent_canonical)

lemma series_equivalent_canonical: "series_equivalent (canonical_series s) s"
  by (simp add: series_equivalent_def canonical_series_def index_equivalent_canonical)

lemma entry_equivalent_same: "entry_equivalent v v"
  by (cases v) (simp_all add: arrays_equivalent_same)

lemma lookup_None_iff: "lookup kvs n = None \<longleftrightarrow> n \<notin> fst ` set kvs"
  by (induction kvs) force+

lemma maps_equivalent_same: "maps_equivalent kvs kvs"
proof -
  have "\<exists>v. lookup kvs k = Some v" if "k \<in> fst ` set kvs" for k
    using that lookup_None_iff[of kvs k] by (cases "lookup kvs k") auto
  then show ?thesis
    by (auto simp: maps_equivalent_def list_all_iff entry_equivalent_same split: option.splits)
qed

lemma equivalent_plain_value: "plain_value v \<Longrightarrow> equivalent_values S v v"
  by (cases v) (simp_all add: equivalent_values.simps)

lemma equivalent_attributes_iff:
  "equivalent_attributes S a b ns \<longleftrightarrow> (\<forall>n\<in>set ns. equivalent_attributes S a b [n])"
  by (induction ns) (auto split: sum.splits)

lemma equivalent_single:
  "getattr a n = Inr v \<Longrightarrow> getattr b n = Inr w \<Longrightarrow>
   equivalent_attributes S a b [n] = equivalent_values S v w"
  by simp


subsection \<open>The round trip of an entity\<close>

lemma build_attributes_ok:
  assumes "\<And>n. n \<in> set ns \<Longrightarrow> getattr v n = Inr (A n) \<and> encode_value S (A n) = Inr (E n)"
  shows "build_attributes S v ns = Inr (map (\<lambda>n. (n, E n)) ns)"
  using assms by (induction ns) auto

lemma lookup_map_keys:
  "lookup (map (\<lambda>n. (n, f n)) ns) n = (if n \<in> set ns then Some (f n) else None)"
  by (induction ns) auto

lemma parse_attributes_ok:
  "\<forall>nk\<in>set nks. lookup kvs (fst nk) = Some (E (fst nk))
       \<and> decode_value S (snd nk) (E (fst nk)) = Inr (D (fst nk) (snd nk)) \<Longrightarrow>
   parse_attributes S kvs nks = Inr (map (\<lambda>nk. (fst nk, D (fst nk) (snd nk))) nks)"
proof (induction nks)
  case Nil
  then show ?case by simp
next
  case (Cons nk nks)
  obtain n k where nk: "nk = (n, k)" by (cases nk)
  show ?case using Cons by (simp add: nk)
qed

lemma lookup_distinct: "distinct (map fst kvs) \<Longrightarrow> (k, v) \<in> set kvs \<Longrightarrow> lookup kvs k = Some v"
  by (induction kvs) (auto simp: rev_image_eqI)

lemma valid_entity_cases:
  assumes "valid_entity S v"
  obtains c d x sch where "v = VObj c d x" "lookup S (cname c) = Some sch"
    "entity_class sch = c" "exclusions_ok v sch"
    "distinct (map fst (registry sch))"
    "set (live_attribute_names v) - set (excluded sch) = set (map fst (registry sch))"
    "\<And>nk. nk \<in> set (registry sch) \<Longrightarrow>
       \<exists>av. getattr v (fst nk) = Inr av \<and> valid_value S (fst nk) (snd nk) av"
proof (cases v)
  case (VObj c d x)
  with assms obtain sch where sch: "lookup S (cname c) = Some sch"
    by (auto simp: valid_entity.simps split: option.splits)
  from assms VObj sch have
    "entity_class sch = c" "exclusions_ok v sch"
    "distinct (map fst (registry sch))"
    "set (live_attribute_names v) - set (excluded sch) = set (map fst (registry sch))"
    "list_all (\<lambda>nk. case getattr v (fst nk) of
                                   Inl e \<Rightarrow> False
                                 | Inr av \<Rightarrow> valid_value S (fst nk) (snd nk) av)
                    (registry sch)"
    by (simp_all add: valid_entity.simps del: getattr.simps live_attribute_names.simps)
  moreover have "\<exists>av. getattr v (fst nk) = Inr av \<and> valid_value S (fst nk) (snd nk) av"
    if "nk \<in> set (registry sch)" for nk
    using calculation(5) that by (cases "getattr v (fst nk)") (auto simp: list_all_iff)
  ultimately show ?thesis using that VObj sch by blast
qed (use assms in \<open>simp_all add: valid_entity.simps\<close>)

lemma valid_entityD:
  assumes "valid_entity S v"
  shows "\<exists>c d x sch. v = VObj c d x \<and> lookup S (cname c) = Some sch
      \<and> entity_class sch = c \<and> exclusions_ok v sch
      \<and> distinct (map fst (registry sch))
      \<and> set (live_attribute_names v) - set (excluded sch) = set (map fst (registry sch))
      \<and> (\<forall>nk\<in>set (registry sch).
            \<exists>av. getattr v (fst nk) = Inr av \<and> valid_value S (fst nk) (snd nk) av)"
  using assms by (rule valid_entity_cases) blast

lemma map_fst_filter_fst:
  "map fst (filter (\<lambda>nv. P (fst nv)) avs) = filter P (map fst avs)"
  by (induction avs) auto

lemma lookup_filter_in:
  "lookup (filter (\<lambda>nv. fst nv \<in> F) avs) n = (if n \<in> F then lookup avs n else None)"
  by (induction avs) auto

lemma lookup_filter_notin:
  "lookup (filter (\<lambda>nv. fst nv \<notin> F) avs) n = (if n \<notin> F then lookup avs n else None)"
  by (induction avs) auto

lemma entity_round_trip:
  assumes v: "v = VObj c d x"
    and sch: "lookup S (cname c) = Some sch" "entity_class sch = c"
    and excl: "exclusions_ok v sch"
    and dist: "distinct (map fst (registry sch))"
    and complete: "set (live_attribute_names v) - set (excluded sch) = set (map fst (registry sch))"
    and attrs: "\<And>nk. nk \<in> set (registry sch) \<Longrightarrow>
       \<exists>av enc av'. getattr v (fst nk) = Inr av \<and> encode_value S av = Inr enc
          \<and> decode_value S (snd nk) enc = Inr av' \<and> equivalent_values S av' av"
  shows "\<exists>doc v'. build S v = Inr doc \<and> parse S doc = Inr v' \<and> type_name v' = type_name v
           \<and> equivalent S v' v (set (excluded sch))
           \<and> set (document_keys doc) \<inter> set (excluded sch) = {}
           \<and> (\<forall>n\<in>set (excluded sch). getattr v' n = Inl AttributeError)
           \<and> (\<forall>nk\<in>set (registry sch). \<exists>av enc av'.
                  getattr v (fst nk) = Inr av \<and> encode_value S av = Inr enc
                  \<and> lookup (entries doc) (fst nk) = Some enc
                  \<and> decode_value S (snd nk) enc = Inr av' \<and> getattr v' (fst nk) = Inr av')"
proof -
  define reg where "reg = registry sch"
  define names where "names = map fst reg"
  define A where "A n = projr (getattr v n)" for n
  define E where "E n = projr (encode_value S (A n))" for n
  define D where "D n k = projr (decode_value S k (E n))" for n k
  define kvs where "kvs = map (\<lambda>n. (n, E n)) names"
  define avs where "avs = map (\<lambda>nk. (fst nk, D (fst nk) (snd nk))) reg"
  define v' where "v' = construct sch avs"
  have F: "getattr v (fst nk) = Inr (A (fst nk)) \<and> encode_value S (A (fst nk)) = Inr (E (fst nk))
       \<and> decode_value S (snd nk) (E (fst nk)) = Inr (D (fst nk) (snd nk))
       \<and> equivalent_values S (D (fst nk) (snd nk)) (A (fst nk))"
    if "nk \<in> set reg" for nk
  proof -
    from attrs[of nk] that obtain av enc av' where
      "getattr v (fst nk) = Inr av" "encode_value S av = Inr enc"
      "decode_value S (snd nk) enc = Inr av'" "equivalent_values S av' av"
      unfolding reg_def by blast
    then show ?thesis by (simp add: A_def E_def D_def)
  qed
  have disjoint: "set names \<inter> set (excluded sch) = {}"
    using complete by (auto simp: names_def reg_def)
  have keep_names: "filter (\<lambda>n. n \<notin> set (excluded sch)) names = names"
    using disjoint by (auto simp: filter_id_conv)
  have keep_reg: "filter (\<lambda>nk. fst nk \<notin> set (excluded sch)) reg = reg"
    using disjoint by (auto simp: filter_id_conv names_def)
  have tn: "type_name v = cname c" by (simp add: v)
  have ba: "build_attributes S v names = Inr kvs"
    unfolding kvs_def
  proof (rule build_attributes_ok)
    fix n assume "n \<in> set names"
    then obtain nk where "nk \<in> set reg" "fst nk = n" by (auto simp: names_def)
    then show "getattr v n = Inr (A n) \<and> encode_value S (A n) = Inr (E n)"
      using F[of nk] by auto
  qed
  have b: "build S v = Inr (DEntity (cname c) kvs)"
    using sch(1) complete ba keep_names
    by (simp add: build.simps tn names_def reg_def del: live_attribute_names.simps)
  have pa: "parse_attributes S kvs reg = Inr avs"
    unfolding avs_def
  proof (rule parse_attributes_ok, rule ballI)
    fix nk assume nk: "nk \<in> set reg"
    then have "fst nk \<in> set names" by (simp add: names_def)
    then have "lookup kvs (fst nk) = Some (E (fst nk))"
      by (simp add: kvs_def lookup_map_keys)
    then show "lookup kvs (fst nk) = Some (E (fst nk))
       \<and> decode_value S (snd nk) (E (fst nk)) = Inr (D (fst nk) (snd nk))"
      using F[OF nk] by simp
  qed
  have no_extras: "filter (\<lambda>ne. fst ne \<notin> set (map fst (registry sch))
                        \<and> fst ne \<notin> set (excluded sch)) kvs = []"
    by (auto simp: filter_empty_conv kvs_def names_def reg_def)
  have p: "parse S (DEntity (cname c) kvs) = Inr v'"
    using sch(1) pa keep_reg no_extras
    by (simp add: parse.simps v'_def reg_def)
  have keys: "map fst avs = names"
    by (simp add: avs_def names_def comp_def)
  have look: "lookup avs (fst nk) = Some (D (fst nk) (snd nk))" if "nk \<in> set reg" for nk
  proof -
    have "(fst nk, D (fst nk) (snd nk)) \<in> set avs" using that by (force simp: avs_def)
    moreover have "distinct (map fst avs)" using dist by (simp add: keys names_def reg_def)
    ultimately show ?thesis by (rule lookup_distinct[rotated])
  qed
  have sub: "lookup kvs (fst nk) = Some (E (fst nk))" if "nk \<in> set reg" for nk
  proof -
    have "fst nk \<in> set names" using that by (simp add: names_def)
    then show ?thesis by (simp add: kvs_def lookup_map_keys)
  qed
  have cls: "\<exists>d' x'. v' = VObj c d' x'"
    by (simp add: v'_def construct_def sch(2))
  then have m: "type_name v' = type_name v" by (auto simp: v)
  have one: "equivalent_attributes S v' v [attr]"
    if "attr \<in> set names" and g: "\<And>w. lookup avs attr = Some w \<Longrightarrow> getattr v' attr = Inr w"
    for attr
  proof -
    from that(1) obtain nk where nk: "nk \<in> set reg" "fst nk = attr"
      by (auto simp: names_def)
    have "getattr v' attr = Inr (D attr (snd nk))" using g look[OF nk(1)] nk(2) by simp
    then show ?thesis using equivalent_single[of v' attr _ v] F[OF nk(1)] nk(2) by simp
  qed
  have cmp: "equivalent S v' v (set (excluded sch))
             \<and> set (document_keys (DEntity (cname c) kvs)) \<inter> set (excluded sch) = {}
             \<and> (\<forall>n\<in>set (excluded sch). getattr v' n = Inl AttributeError)
             \<and> (\<forall>nk\<in>set reg. getattr v' (fst nk) = Inr (D (fst nk) (snd nk)))"
  proof (cases "''BaseModel'' \<in> set (cname c # bases c)")
    case True
    from True excl obtain e where e: "x = Some e" "excluded sch = []" "extensible sch"
      by (auto simp: exclusions_ok_def v)
    let ?F = "set (model_fields c)"
    have v'_eq: "v' = VObj c (filter (\<lambda>nv. fst nv \<in> ?F) avs)
                       (Some (filter (\<lambda>nv. fst nv \<notin> ?F) avs))"
      using True e by (simp add: v'_def construct_def sch(2))
    have n1: "live_attribute_names v' = model_fields c @ filter (\<lambda>n. n \<notin> ?F) names"
      using True map_fst_filter_fst[of "\<lambda>n. n \<notin> ?F" avs]
      by (simp add: v'_eq keys)
    have n2: "live_attribute_names v = model_fields c @ map fst e"
      using True by (simp add: v e)
    have live: "?F \<union> fst ` set e = set names"
      using complete True e by (simp add: v names_def reg_def)
    have same: "set (live_attribute_names v') = set (live_attribute_names v)"
      unfolding n1 n2 using live by auto
    have all_names: "set (live_attribute_names v') \<subseteq> set names"
      unfolding n1 using live by auto
    have g: "getattr v' attr = Inr w" if "lookup avs attr = Some w" for attr w
      using that True by (simp add: v'_eq lookup_filter_in lookup_filter_notin)
    have loop: "equivalent_attributes S v' v (filter (\<lambda>n. n \<notin> {}) (live_attribute_names v'))"
    proof (rule iffD2[OF equivalent_attributes_iff], rule ballI)
      fix attr assume "attr \<in> set (filter (\<lambda>n. n \<notin> {}) (live_attribute_names v'))"
      then have "attr \<in> set names" using all_names by auto
      then show "equivalent_attributes S v' v [attr]"
        using g by (rule one)
    qed
    have "equivalent S v' v (set (excluded sch))"
      using m same loop by (simp add: equivalent.simps e(2))
    then show ?thesis using g look by (simp add: e(2))
  next
    case False
    have v'_eq: "v' = VObj c avs None"
      using False by (simp add: v'_def construct_def sch(2))
    have n1: "live_attribute_names v' = names"
      using False by (simp add: v'_eq keys)
    have n2: "live_attribute_names v = map fst d"
      using False by (simp add: v)
    have live: "set (map fst d) - set (excluded sch) = set names"
      using complete False by (simp add: v names_def reg_def)
    have same: "set (live_attribute_names v') - set (excluded sch)
                  = set (live_attribute_names v) - set (excluded sch)"
      unfolding n1 n2 using live by auto
    have g: "getattr v' attr = Inr w" if "lookup avs attr = Some w" for attr w
      using that by (simp add: v'_eq)
    have loop: "equivalent_attributes S v' v
                  (filter (\<lambda>n. n \<notin> set (excluded sch)) (live_attribute_names v'))"
    proof (rule iffD2[OF equivalent_attributes_iff], rule ballI)
      fix attr
      assume "attr \<in> set (filter (\<lambda>n. n \<notin> set (excluded sch)) (live_attribute_names v'))"
      then have "attr \<in> set names" by (auto simp: n1)
      then show "equivalent_attributes S v' v [attr]"
        using g by (rule one)
    qed
    have c1: "equivalent S v' v (set (excluded sch))"
      using m same loop by (simp add: equivalent.simps)
    have c2: "set (document_keys (DEntity (cname c) kvs)) \<inter> set (excluded sch) = {}"
      using disjoint by (simp add: kvs_def comp_def document_keys_def)
    have c3: "getattr v' n = Inl AttributeError" if "n \<in> set (excluded sch)" for n
    proof -
      have "n \<notin> set names" using that disjoint by auto
      then have "lookup avs n = None" by (simp add: lookup_None_iff keys[symmetric])
      then show ?thesis using False by (simp add: v'_eq)
    qed
    show ?thesis using c1 c2 c3 g look by blast
  qed
  have all: "\<forall>nk\<in>set (registry sch). \<exists>av enc av'.
                  getattr v (fst nk) = Inr av \<and> encode_value S av = Inr enc
                  \<and> lookup (entries (DEntity (cname c) kvs)) (fst nk) = Some enc
                  \<and> decode_value S (snd nk) enc = Inr av' \<and> getattr v' (fst nk) = Inr av'"
    using F sub cmp by (auto simp: reg_def)
  show ?thesis using b p m cmp all by blast
qed

lemma value_round_trip:
  assumes valid: "valid_value S n k av"
    and nested: "k = NESTED_ENTITY \<Longrightarrow>
       \<exists>doc v'. build S av = Inr doc \<and> parse S doc = Inr v' \<and> type_name v' = type_name av
          \<and> (\<forall>sch. lookup S (type_name av) = Some sch \<longrightarrow> equivalent S v' av (set (excluded sch)))"
  shows "\<exists>enc av'. encode_value S av = Inr enc \<and> decode_value S k enc = Inr av'
           \<and> equivalent_values S av' av"
proof (cases k)
  case SCALAR
  with valid have p: "plain_value av"
    by (simp_all add: valid_value.simps)
  from plain_round_trip[OF p, of S] obtain enc where
    "encode_value S av = Inr enc" "decode_plain enc = Inr av" by blast
  then show ?thesis
    using equivalent_plain_value[OF p] SCALAR by (auto simp: decode_value.simps)
next
  case ARRAY
  with valid obtain a where a: "av = VArray a"
    by (cases av) (simp_all add: valid_value.simps)
  show ?thesis
    by (simp add: a ARRAY encode_value.simps decode_value.simps decode_encode_array
          equivalent_values.simps arrays_equivalent_same)
next
  case TABULAR
  with valid have t: "tabular_value av" by (simp add: valid_value.simps)
  then show ?thesis
    by (cases av)
       (simp_all add: TABULAR encode_value.simps decode_value.simps decode_tabular_frame
          decode_tabular_series equivalent_values.simps frames_equivalent_canonical
          series_equivalent_canonical)
next
  case NESTED_ENTITY
  with valid have ve: "valid_entity S av" by (simp add: valid_value.simps)
  from nested[OF NESTED_ENTITY] obtain doc v' where rt:
    "build S av = Inr doc" "parse S doc = Inr v'" "type_name v' = type_name av"
    "\<forall>sch. lookup S (type_name av) = Some sch \<longrightarrow> equivalent S v' av (set (excluded sch))"
    by blast
  from valid_entityD[OF ve] obtain c d x sch where
    e: "av = VObj c d x" "lookup S (cname c) = Some sch" "entity_class sch = c"
    by blast
  have look: "lookup S (type_name av) = Some sch" using e(1,2) by simp
  from valid_entityD[OF ve] rt(2) have "\<exists>c' d' x'. v' = VObj c' d' x'"
    by (cases v') (auto simp: parse.simps construct_def split: document.splits option.splits
          sum.splits if_splits)
  then obtain c' d' x' where v': "v' = VObj c' d' x'" by blast
  have enc: "encode_value S av = Inr doc"
    using rt(1) by (simp add: encode_value.simps e(1))
  have dec: "decode_value S k doc = Inr v'"
    using rt(2) by (simp add: decode_value.simps NESTED_ENTITY)
  have "equivalent_values S v' av"
    using rt(3,4) look by (simp add: equivalent_values.simps v' del: type_name.simps)
  then show ?thesis using enc dec by blast
next
  case PARAMETER_MAP
  from valid PARAMETER_MAP obtain kvs where kvs: "av = VDict kvs" "list_all valid_entry kvs"
    by (cases av) (simp_all add: valid_value.simps)
  from entries_round_trip[OF kvs(2)] obtain es where
    es: "collect (map encode_entry kvs) = Inr es" "collect (map decode_entry es) = Inr kvs"
    by blast
  show ?thesis
    using es
    by (auto simp: kvs(1) PARAMETER_MAP encode_value.simps decode_value.simps
          equivalent_values.simps maps_equivalent_same)
qed

lemma round_trip_both:
  "valid_entity S v \<longrightarrow>
     (\<exists>doc v'. build S v = Inr doc \<and> parse S doc = Inr v' \<and> type_name v' = type_name v
          \<and> (\<forall>sch. lookup S (type_name v) = Some sch \<longrightarrow>
                equivalent S v' v (set (excluded sch))
                \<and> set (document_keys doc) \<inter> set (excluded sch) = {}
                \<and> (\<forall>n\<in>set (excluded sch). getattr v' n = Inl AttributeError)
                \<and> (\<forall>nk\<in>set (registry sch). \<exists>av enc av'.
                  getattr v (fst nk) = Inr av \<and> encode_value S av = Inr enc
                  \<and> lookup (entries doc) (fst nk) = Some enc
                  \<and> decode_value S (snd nk) enc = Inr av' \<and> getattr v' (fst nk) = Inr av')))"
  "valid_value S n k av \<longrightarrow>
     (\<exists>enc av'. encode_value S av = Inr enc \<and> decode_value S k enc = Inr av'
           \<and> equivalent_values S av' av)"
proof (induction S v and S n k av rule: valid_entity_valid_value.induct)
  case (1 S v)
  show ?case
  proof
    assume "valid_entity S v"
    from valid_entityD[OF this] obtain c d x sch where
      e: "v = VObj c d x" "lookup S (cname c) = Some sch"
      "entity_class sch = c" "exclusions_ok v sch"
      "distinct (map fst (registry sch))"
      "set (live_attribute_names v) - set (excluded sch) = set (map fst (registry sch))"
      and attrs: "\<And>nk. nk \<in> set (registry sch) \<Longrightarrow>
         \<exists>av. getattr v (fst nk) = Inr av \<and> valid_value S (fst nk) (snd nk) av"
      by blast
    have each: "\<exists>av enc av'. getattr v (fst nk) = Inr av \<and> encode_value S av = Inr enc
          \<and> decode_value S (snd nk) enc = Inr av' \<and> equivalent_values S av' av"
      if nk: "nk \<in> set (registry sch)" for nk
    proof -
      from attrs[OF nk] obtain av where av: "getattr v (fst nk) = Inr av"
        "valid_value S (fst nk) (snd nk) av" by blast
      from "1.IH"[OF e(1,2) nk av(1)] av(2) show ?thesis
        using av(1) by blast
    qed
    have tn: "lookup S (type_name v) = Some sch" using e(1,2) by simp
    have "\<exists>doc v'. build S v = Inr doc \<and> parse S doc = Inr v' \<and> type_name v' = type_name v
          \<and> equivalent S v' v (set (excluded sch))
          \<and> set (document_keys doc) \<inter> set (excluded sch) = {}
          \<and> (\<forall>n\<in>set (excluded sch). getattr v' n = Inl AttributeError)
          \<and> (\<forall>nk\<in>set (registry sch). \<exists>av enc av'.
                  getattr v (fst nk) = Inr av \<and> encode_value S av = Inr enc
                  \<and> lookup (entries doc) (fst nk) = Some enc
                  \<and> decode_value S (snd nk) enc = Inr av' \<and> getattr v' (fst nk) = Inr av')"
      by (rule entity_round_trip[OF e(1,2,3,4,5,6)]) (rule each)
    then obtain doc v' where r: "build S v = Inr doc" "parse S doc = Inr v'"
      "type_name v' = type_name v"
      "equivalent S v' v (set (excluded sch))"
      "set (document_keys doc) \<inter> set (excluded sch) = {}"
      "\<forall>n\<in>set (excluded sch). getattr v' n = Inl AttributeError"
      "\<forall>nk\<in>set (registry sch). \<exists>av enc av'.
                  getattr v (fst nk) = Inr av \<and> encode_value S av = Inr enc
                  \<and> lookup (entries doc) (fst nk) = Some enc
                  \<and> decode_value S (snd nk) enc = Inr av' \<and> getattr v' (fst nk) = Inr av'"
      by blast
    show "\<exists>doc v'. build S v = Inr doc \<and> parse S doc = Inr v' \<and> type_name v' = type_name v
          \<and> (\<forall>sch. lookup S (type_name v) = Some sch \<longrightarrow>
                equivalent S v' v (set (excluded sch))
                \<and> set (document_keys doc) \<inter> set (excluded sch) = {}
                \<and> (\<forall>n\<in>set (excluded sch). getattr v' n = Inl AttributeError)
                \<and> (\<forall>nk\<in>set (registry sch). \<exists>av enc av'.
                  getattr v (fst nk) = Inr av \<and> encode_value S av = Inr enc
                  \<and> lookup (entries doc) (fst nk) = Some enc
                  \<and> decode_value S (snd nk) enc = Inr av' \<and> getattr v' (fst nk) = Inr av'))"
      apply (rule exI[of _ doc], rule exI[of _ v'])
      using r tn by simp
  qed
next
  case (2 S n k av)
  show ?case
  proof
    assume valid: "valid_value S n k av"
    show "\<exists>enc av'. encode_value S av = Inr enc \<and> decode_value S k enc = Inr av'
           \<and> equivalent_values S av' av"
    proof (rule value_round_trip[OF valid])
      assume k: "k = NESTED_ENTITY"
      then have "valid_entity S av" using valid by (simp add: valid_value.simps)
      then show "\<exists>doc v'. build S av = Inr doc \<and> parse S doc = Inr v'
          \<and> type_name v' = type_name av
          \<and> (\<forall>sch. lookup S (type_name av) = Some sch \<longrightarrow>
                equivalent S v' av (set (excluded sch)))"
        using "2.IH"[OF k] by blast
    qed
  qed
qed

section \<open>The round trip\<close>



section \<open>Excluded attributes\<close>

text \<open>
  C3. For a valid model \<open>m\<close> whose attribute \<open>n\<close> holds a backend \<open>b\<close>: the document of
  \<open>m\<close> holds a sub-document for \<open>b\<close> under \<open>n\<close> that has no key \<open>stan_fit\<close> and no key
  \<open>model\<close>; decoding the document succeeds all the same, and in the decoded model the
  backend under \<open>n\<close> has neither attribute set.
\<close>

theorem exclusion_enforced:
  assumes "valid_entity S m" and "lookup S (type_name m) = Some sch"
    and "(n, NESTED_ENTITY) \<in> set (registry sch)" and "getattr m n = Inr b"
    and "\<not> isinstance b ''BaseModel''"
  shows "\<exists>doc bdoc m' b'. to_document S m = Inr doc \<and> lookup (entries doc) n = Some bdoc
           \<and> ''stan_fit'' \<notin> set (document_keys bdoc) \<and> ''model'' \<notin> set (document_keys bdoc)
           \<and> from_document S doc = Inr m' \<and> getattr m' n = Inr b'
           \<and> getattr b' ''stan_fit'' = Inl AttributeError
           \<and> getattr b' ''model'' = Inl AttributeError"
proof -
  from round_trip_both(1)[of S m] assms(1,2) obtain doc m' where
    m: "build S m = Inr doc" "parse S doc = Inr m'"
    and each: "\<forall>nk\<in>set (registry sch). \<exists>av enc av'.
                  getattr m (fst nk) = Inr av \<and> encode_value S av = Inr enc
                  \<and> lookup (entries doc) (fst nk) = Some enc
                  \<and> decode_value S (snd nk) enc = Inr av' \<and> getattr m' (fst nk) = Inr av'"
    by blast
  from each assms(3,4) obtain bdoc b' where
    sub: "encode_value S b = Inr bdoc" "lookup (entries doc) n = Some bdoc"
      "decode_value S NESTED_ENTITY bdoc = Inr b'" "getattr m' n = Inr b'"
    by force
  from valid_entityD[OF assms(1)] assms(2) have
    "\<forall>nk\<in>set (registry sch). \<exists>av. getattr m (fst nk) = Inr av
        \<and> valid_value S (fst nk) (snd nk) av"
    by auto
  with assms(3,4) have "valid_value S n NESTED_ENTITY b" by force
  then have vb: "valid_entity S b" by (simp add: valid_value.simps)
  from valid_entityD[OF vb] obtain c d x bsch where
    bo: "b = VObj c d x" "lookup S (cname c) = Some bsch" "exclusions_ok b bsch" by blast
  have blook: "lookup S (type_name b) = Some bsch" using bo(1,2) by simp
  from round_trip_both(1)[of S b] vb blook obtain bdoc' b'' where
    b: "build S b = Inr bdoc'" "parse S bdoc' = Inr b''"
       "set (document_keys bdoc') \<inter> set (excluded bsch) = {}"
       "\<forall>n\<in>set (excluded bsch). getattr b'' n = Inl AttributeError"
    by blast
  have ig: "set (excluded bsch) = {''stan_fit'', ''model''}"
    using assms(5) bo(3) by (simp add: exclusions_ok_def bo(1) isinstance_def)
  have same: "bdoc' = bdoc" "b'' = b'"
    using sub(1,3) b(1,2) by (simp_all add: encode_value.simps decode_value.simps bo(1))
  show ?thesis
    using m sub(2,4) b(3,4) same ig
    by (auto simp: to_document_def from_document_def)
qed

theorem exclusion_enforced_witness:
  "getattr example_backend ''stan_fit'' = Inr (VScalar (SStr ''handle''))
   \<and> (\<exists>doc bdoc m' b'. to_document example_schemas example_model = Inr doc
         \<and> lookup (entries doc) ''model_backend'' = Some bdoc
         \<and> ''stan_fit'' \<notin> set (document_keys bdoc) \<and> ''model'' \<notin> set (document_keys bdoc)
         \<and> from_document example_schemas doc = Inr m'
         \<and> getattr m' ''model_backend'' = Inr b'
         \<and> getattr b' ''stan_fit'' = Inl AttributeError
         \<and> getattr b' ''model'' = Inl AttributeError)"
proof -
  have v: "valid_entity example_schemas example_model" by code_simp
  have s: "lookup example_schemas (type_name example_model)
             = Some \<lparr>entity_class = GloriaC,
                     registry = [(''model'', SCALAR), (''history'', TABULAR),
                                 (''trend'', TABULAR), (''x'', ARRAY),
                                 (''model_backend'', NESTED_ENTITY)],
                     excluded = [], extensible = True\<rparr>"
    by (simp add: example_schemas_def example_model_def GloriaC_def)
  have g: "getattr example_model ''model_backend'' = Inr example_backend"
    by (simp add: example_model_def GloriaC_def)
  have nb: "\<not> isinstance example_backend ''BaseModel''"
    by (simp add: example_backend_def Backend_def isinstance_def)
  have h: "getattr example_backend ''stan_fit'' = Inr (VScalar (SStr ''handle''))"
    by (simp add: example_backend_def)
  show ?thesis
    using h exclusion_enforced[OF v s _ g nb] by simp
qed

end
